theory Spec2Isabelle
  imports Main
begin

section \<open>The frame store of \<open>BrowserFrameUtility.ts\<close>\<close>

text \<open>
  \<open>BrowserFrameUtility\<close> works on a graph of mutable objects: frames point to their
  parent and to their children, to a window and to a page; pages point to their main
  frame and to a context; contexts to a browser that holds the settings. The parent's
  \<open>childFrames\<close> array is spliced while a loop of the caller walks the same array, so
  the model keeps an explicit store: every object is named by a number and the store
  maps the number to the object's fields. A reference that may be \<open>null\<close> is an
  \<open>option\<close>. Every number names some object, as every JavaScript reference does.
\<close>

datatype error =
    DOMException string string
  | TypeError string
  | Thrown string

record frame =
  f_window :: "nat option"
  f_page :: "nat option"
  f_parentFrame :: "nat option"
  f_childFrames :: "nat list"
  f_asyncTaskManager :: nat
  f_detached :: bool

text \<open>
  Modelled from the spec: the frame classes behind \<open>IBrowserFrame\<close> are not in
  \<open>BrowserFrameUtility.ts\<close>. A frame holds no URL and no content of its own:
  \<open>frame.url\<close> is the current location of the frame's window, and \<open>frame.content\<close>
  is the content of the document of that window (\<open>frameUrl\<close>, \<open>frameContent\<close> and
  their setters below). \<open>f_asyncTaskManager\<close> counts the calls of \<open>_asyncTaskManager.destroy()\<close>;
  \<open>f_detached\<close> is \<open>frame instanceof DetachedBrowserFrame\<close>. Of a window the code
  reads and writes \<open>closed\<close>, \<open>location.href\<close>, \<open>location.hostname\<close>,
  \<open>document.referrer\<close>, the content of the document and the settings that \<open>WindowBrowserSettingsReader\<close> keeps
  for it (\<open>w_settings\<close> is true while they are kept).
\<close>

record window =
  w_closed :: bool
  w_href :: string
  w_hostname :: string
  w_referrer :: string
  w_content :: string
  w_settings :: bool

record page =
  p_mainFrame :: nat
  p_context :: nat

record bcontext =
  c_pages :: "nat list"
  c_browser :: nat

record settings =
  disableJavaScriptEvaluation :: bool
  disableErrorCapturing :: bool
  browserNavigation :: "string list"

record browser =
  b_defaultContext :: nat
  b_settings :: settings

text \<open>
  What the ready-state manager, the fetch capability, the evaluation capability, the
  error channel and the timer queue are asked to do is appended to a trace, in the
  order of the calls.
\<close>

datatype event =
    StartTask nat
  | EndTask nat
  | FetchCalled nat string
  | ErrorDispatched nat error
  | Evaluated nat string

record timeout =
  t_window :: nat
  t_frame :: nat
  t_readyStateManager :: nat
  t_url :: string

record store =
  frames :: "nat \<Rightarrow> frame"
  windows :: "nat \<Rightarrow> window"
  pages :: "nat \<Rightarrow> page"
  contexts :: "nat \<Rightarrow> bcontext"
  browsers :: "nat \<Rightarrow> browser"
  nextFrame :: nat
  nextWindow :: nat
  timers :: "timeout list"
  trace :: "event list"

record response =
  r_id :: nat
  r_text :: "error + string"

datatype fetch_result = FetchRejects error | FetchResolves response

record goto_options =
  referrer :: "string option"
  referrerPolicy :: "string option"

text \<open>
  The collaborators that are not part of \<open>BrowserFrameUtility.ts\<close> are parameters:
  \<open>url_resolve input base\<close> is \<open>new URL(input, base).href\<close> and \<open>url_origin s\<close> is
  \<open>new URL(s).origin\<close> (\<open>None\<close> when the constructor throws), \<open>url_hostname s\<close>
  is the host component of the location \<open>s\<close>, \<open>fetch\<close> is
  \<open>window.fetch\<close> followed by \<open>response.text()\<close>, \<open>evalJS\<close> is \<open>window.eval\<close>
  (\<open>Some e\<close> when the code throws \<open>e\<close>), \<open>windowClass\<close> is the window constructor
  that \<open>goto\<close> receives, applied to the frame that owns the new window.
\<close>

record env =
  url_resolve :: "string \<Rightarrow> string \<Rightarrow> string option"
  url_origin :: "string \<Rightarrow> string option"
  url_hostname :: "string \<Rightarrow> string"
  fetch :: "nat \<Rightarrow> string \<Rightarrow> goto_options option \<Rightarrow> fetch_result"
  evalJS :: "nat \<Rightarrow> string \<Rightarrow> error option"
  windowClass :: "nat \<Rightarrow> window"

section \<open>Strings and arrays of JavaScript\<close>

definition startsWith :: "string \<Rightarrow> string \<Rightarrow> bool" where
  "startsWith s p = (take (length p) s = p)"

text \<open>\<open>s.replace(p, r)\<close> with a string pattern replaces the first occurrence only.\<close>

fun replace :: "string \<Rightarrow> string \<Rightarrow> string \<Rightarrow> string" where
  "replace [] p r = (if p = [] then r else [])"
| "replace (c # cs) p r =
     (if take (length p) (c # cs) = p then r @ drop (length p) (c # cs)
      else c # replace cs p r)"

text \<open>\<open>a.indexOf(x)\<close>; \<open>None\<close> is \<open>-1\<close>.\<close>

fun indexOf :: "nat list \<Rightarrow> nat \<Rightarrow> nat option" where
  "indexOf [] x = None"
| "indexOf (y # ys) x =
     (if y = x then Some 0 else map_option Suc (indexOf ys x))"

text \<open>\<open>a.splice(i, 1)\<close>.\<close>

definition splice1 :: "nat list \<Rightarrow> nat \<Rightarrow> nat list" where
  "splice1 xs i = take i xs @ drop (Suc i) xs"

section \<open>closeFrame\<close>

text \<open>
  Lines 28 to 33: the frame is taken out of its parent's \<open>childFrames\<close>, in place.
\<close>

definition detachFromParent :: "store \<Rightarrow> nat \<Rightarrow> store" where
  "detachFromParent st f =
     (case f_parentFrame (frames st f) of
        None \<Rightarrow> st
      | Some p \<Rightarrow>
          (case indexOf (f_childFrames (frames st p)) f of
             None \<Rightarrow> st
           | Some i \<Rightarrow>
               st\<lparr>frames := (frames st)
                 (p := (frames st p)\<lparr>f_childFrames := splice1 (f_childFrames (frames st p)) i\<rparr>)\<rparr>))"

text \<open>
  Lines 39 to 43. \<open>frame.window.closed = true\<close> throws a TypeError when the window
  has become \<open>null\<close> while the children were closed.
\<close>

definition finalizeFrame :: "store \<Rightarrow> nat \<Rightarrow> (error + unit) \<times> store" where
  "finalizeFrame st f =
     (case f_window (frames st f) of
        None \<Rightarrow> (Inl (TypeError ''Cannot set properties of null (setting closed)''), st)
      | Some w \<Rightarrow>
          (Inr (),
           st\<lparr>windows := (windows st)(w := (windows st w)\<lparr>w_closed := True, w_settings := False\<rparr>),
              frames := (frames st)
                (f := (frames st f)\<lparr>f_window := None, f_page := None,
                      f_asyncTaskManager := Suc (f_asyncTaskManager (frames st f))\<rparr>)\<rparr>))"

text \<open>
  \<open>closeFrame\<close> calls itself on every child, and the object graph may have a cycle, in
  which case the recursion of the source does not end. The model carries a bound on the
  nesting of calls and loop steps that are left, the depth: \<open>None\<close> means that the
  depth did not suffice. A thrown error is \<open>Inl\<close>; the store
  comes back in both cases, since what was written before a throw stays written.

  \<open>closeLoop n st f i\<close> is the loop \<open>for (const childFrame of frame.childFrames)\<close> at
  position \<open>i\<close> of the array iterator. The iterator keeps an index into the array and
  reads the array's length and element anew at every step; the array is the one the
  calls of \<open>closeFrame\<close> splice.
\<close>

fun closeFrame :: "nat \<Rightarrow> store \<Rightarrow> nat \<Rightarrow> ((error + unit) \<times> store) option"
  and closeLoop :: "nat \<Rightarrow> store \<Rightarrow> nat \<Rightarrow> nat \<Rightarrow> ((error + unit) \<times> store) option"
where
  "closeFrame 0 st f = None"
| "closeFrame (Suc n) st f =
     (case f_window (frames st f) of
        None \<Rightarrow> Some (Inr (), st)
      | Some w \<Rightarrow>
          (case closeLoop n (detachFromParent st f) f 0 of
             None \<Rightarrow> None
           | Some (Inl e, st') \<Rightarrow> Some (Inl e, st')
           | Some (Inr u, st') \<Rightarrow> Some (finalizeFrame st' f)))"
| "closeLoop 0 st f i = None"
| "closeLoop (Suc n) st f i =
     (if i < length (f_childFrames (frames st f)) then
        (case closeFrame n st (f_childFrames (frames st f) ! i) of
           None \<Rightarrow> None
         | Some (Inl e, st') \<Rightarrow> Some (Inl e, st')
         | Some (Inr u, st') \<Rightarrow> closeLoop n st' f (Suc i))
      else Some (Inr (), st))"

section \<open>newFrame\<close>

text \<open>
  Modelled from the spec: the frame classes (\<open>BrowserFrame\<close>, \<open>DetachedBrowserFrame\<close>),
  whose constructor \<open>newFrame\<close> calls through \<open>parentFrame.constructor\<close>, are not in
  \<open>BrowserFrameUtility.ts\<close>. The new frame is of the parent's variant, is bound to the
  page it is given, has a window of its own, which the window constructor makes, no
  parent and no children.
\<close>

definition constructFrame :: "env \<Rightarrow> store \<Rightarrow> bool \<Rightarrow> nat option \<Rightarrow> nat \<times> store" where
  "constructFrame ev st detached pg =
     (let fid = nextFrame st; wid = nextWindow st in
      (fid,
       st\<lparr>frames := (frames st)
            (fid := \<lparr>f_window = Some wid, f_page = pg, f_parentFrame = None,
                     f_childFrames = [], f_asyncTaskManager = 0,
                     f_detached = detached\<rparr>),
          windows := (windows st)(wid := windowClass ev fid),
          nextFrame := Suc fid,
          nextWindow := Suc wid\<rparr>))"

definition newFrame :: "env \<Rightarrow> store \<Rightarrow> nat \<Rightarrow> nat \<times> store" where
  "newFrame ev st parentFrame =
     (case constructFrame ev st (f_detached (frames st parentFrame))
             (f_page (frames st parentFrame)) of
        (fid, st1) \<Rightarrow>
          (fid,
           st1\<lparr>frames := (frames st1)
             (fid := (frames st1 fid)\<lparr>f_parentFrame := Some parentFrame\<rparr>,
              parentFrame := (frames st1 parentFrame)
                \<lparr>f_childFrames := f_childFrames (frames st1 parentFrame) @ [fid]\<rparr>)\<rparr>))"

section \<open>Settings\<close>

text \<open>
  \<open>frame.page.context.browser.settings\<close>. A closed frame has no page, and reading
  \<open>context\<close> of \<open>null\<close> throws a TypeError.
\<close>

definition settingsOf :: "store \<Rightarrow> nat \<Rightarrow> error + settings" where
  "settingsOf st f =
     (case f_page (frames st f) of
        None \<Rightarrow> Inl (TypeError ''Cannot read properties of null (reading context)'')
      | Some p \<Rightarrow> Inr (b_settings (browsers st (c_browser (contexts st (p_context (pages st p)))))))"

section \<open>The URL and the content of a frame\<close>

text \<open>
  Modelled from the spec: the accessors \<open>url\<close> and \<open>content\<close> of the frame classes
  are not in \<open>BrowserFrameUtility.ts\<close>. By the spec \<open>url\<close> is the current location
  of the frame, which is the location of its window (line 227 reads it there), and the
  content of a frame is the content of the document of its window. Reading or
  assigning either on a frame that has no window throws a TypeError. Assigning the URL
  moves the location of the window: its \<open>href\<close> is the new URL and its \<open>hostname\<close>
  the host component of the new URL.
\<close>

definition frameUrl :: "store \<Rightarrow> nat \<Rightarrow> error + string" where
  "frameUrl st f =
     (case f_window (frames st f) of
        None \<Rightarrow> Inl (TypeError ''Cannot read properties of null (reading location)'')
      | Some w \<Rightarrow> Inr (w_href (windows st w)))"

definition setFrameUrl :: "env \<Rightarrow> store \<Rightarrow> nat \<Rightarrow> string \<Rightarrow> (error + unit) \<times> store" where
  "setFrameUrl ev st f u =
     (case f_window (frames st f) of
        None \<Rightarrow> (Inl (TypeError ''Cannot set properties of null (setting location)''), st)
      | Some w \<Rightarrow>
          (Inr (),
           st\<lparr>windows := (windows st)
                (w := (windows st w)\<lparr>w_href := u, w_hostname := url_hostname ev u\<rparr>)\<rparr>))"

definition frameContent :: "store \<Rightarrow> nat \<Rightarrow> error + string" where
  "frameContent st f =
     (case f_window (frames st f) of
        None \<Rightarrow> Inl (TypeError ''Cannot read properties of null (reading document)'')
      | Some w \<Rightarrow> Inr (w_content (windows st w)))"

definition setFrameContent :: "store \<Rightarrow> nat \<Rightarrow> string \<Rightarrow> (error + unit) \<times> store" where
  "setFrameContent st f c =
     (case f_window (frames st f) of
        None \<Rightarrow> (Inl (TypeError ''Cannot read properties of null (reading document)''), st)
      | Some w \<Rightarrow>
          (Inr (), st\<lparr>windows := (windows st)(w := (windows st w)\<lparr>w_content := c\<rparr>)\<rparr>))"

section \<open>getRelativeURL\<close>

text \<open>
  \<open>DOMExceptionNameEnum.uriMismatchError\<close>; the enumeration is not in
  \<open>BrowserFrameUtility.ts\<close>.
\<close>

definition uriMismatchError :: string where
  "uriMismatchError = ''URIMismatchError''"

definition quoted :: "string \<Rightarrow> string" where
  "quoted s = [CHR 0x22] @ s @ [CHR 0x22]"

text \<open>
  Lines 219 to 241. When the frame has no window, \<open>frame.window.location\<close> throws inside
  the \<open>try\<close>, and \<open>frame.window.location.hostname\<close> throws again inside the \<open>catch\<close>:
  the caller gets that TypeError. The function reads the store and writes nothing.
\<close>

definition getRelativeURL :: "env \<Rightarrow> store \<Rightarrow> nat \<Rightarrow> string \<Rightarrow> error + string" where
  "getRelativeURL ev st f url0 =
     (let u = (if url0 = [] then ''about:blank'' else url0) in
      if startsWith u ''about:'' \<or> startsWith u ''javascript:'' then Inr u
      else
        (case f_window (frames st f) of
           None \<Rightarrow> Inl (TypeError ''Cannot read properties of null (reading location)'')
         | Some w \<Rightarrow>
             (case url_resolve ev u (w_href (windows st w)) of
                Some href \<Rightarrow> Inr href
              | None \<Rightarrow>
                  if w_hostname (windows st w) \<noteq> [] then
                    Inl (DOMException
                      (''Failed to construct URL from string '' @ quoted u @ ''.'')
                      uriMismatchError)
                  else
                    Inl (DOMException
                      (''Failed to construct URL from string '' @ quoted u @
                       '' relative to URL '' @ quoted (w_href (windows st w)) @ ''.'')
                      uriMismatchError))))"

section \<open>isBrowserNavigationAllowed and isDetachedMainFrame\<close>

text \<open>
  Lines 172 to 195. \<open>new URL(fromURL)\<close> is evaluated before \<open>new URL(toURL)\<close>, and each
  throws a TypeError on a string that is not an absolute URL. The function returns a
  value and no store: its body assigns nothing.
\<close>

definition isBrowserNavigationAllowed ::
  "env \<Rightarrow> store \<Rightarrow> nat \<Rightarrow> string \<Rightarrow> string \<Rightarrow> error + bool" where
  "isBrowserNavigationAllowed ev st f fromURL toURL =
     (case f_page (frames st f) of
        None \<Rightarrow> Inl (TypeError ''Cannot read properties of null (reading context)'')
      | Some p \<Rightarrow>
          (let nav = browserNavigation
                 (b_settings (browsers st (c_browser (contexts st (p_context (pages st p))))))
           in
           if ''deny'' \<in> set nav then Inr False
           else if ''sameorigin'' \<in> set nav then
             (case url_origin ev fromURL of
                None \<Rightarrow> Inl (TypeError (''Invalid URL: '' @ fromURL))
              | Some o1 \<Rightarrow>
                  (case url_origin ev toURL of
                     None \<Rightarrow> Inl (TypeError (''Invalid URL: '' @ toURL))
                   | Some o2 \<Rightarrow>
                       if o1 \<noteq> o2 then Inr False
                       else if ''child-only'' \<in> set nav \<and> p_mainFrame (pages st p) = f
                       then Inr False else Inr True))
           else if ''child-only'' \<in> set nav \<and> p_mainFrame (pages st p) = f
           then Inr False else Inr True))"

text \<open>
  Lines 203 to 210. \<open>pages[0]\<close> of an empty array is \<open>undefined\<close>, which is no page.
\<close>

definition isDetachedMainFrame :: "store \<Rightarrow> nat \<Rightarrow> error + bool" where
  "isDetachedMainFrame st f =
     (if \<not> f_detached (frames st f) then Inr False
      else
        (case f_page (frames st f) of
           None \<Rightarrow> Inl (TypeError ''Cannot read properties of null (reading context)'')
         | Some p \<Rightarrow>
             (let c = p_context (pages st p) in
              Inr (c = b_defaultContext (browsers st (c_browser (contexts st c))) \<and>
                   (case c_pages (contexts st c) of [] \<Rightarrow> False | p0 # ps \<Rightarrow> p0 = p) \<and>
                   p_mainFrame (pages st p) = f))))"

section \<open>goto\<close>

definition logEvent :: "store \<Rightarrow> event \<Rightarrow> store" where
  "logEvent st e = st\<lparr>trace := trace st @ [e]\<rparr>"

text \<open>
  Lines 83 to 102, the \<open>javascript:\<close> target. The callback given to \<open>setTimeout\<close> is
  kept in \<open>timers\<close> with what it closes over: the frame, the ready-state manager read
  from the frame's window at the time of the call, and the URL.
\<close>

definition gotoJavascript :: "store \<Rightarrow> nat \<Rightarrow> string \<Rightarrow> (error + response option) \<times> store" where
  "gotoJavascript st f u =
     (case settingsOf st f of
        Inl e \<Rightarrow> (Inl e, st)
      | Inr s \<Rightarrow>
          if \<not> disableJavaScriptEvaluation s then
            (case f_window (frames st f) of
               None \<Rightarrow>
                 (Inl (TypeError ''Cannot read properties of null (reading _readyStateManager)''), st)
             | Some w \<Rightarrow>
                 (let st1 = logEvent st (StartTask w) in
                  case f_page (frames st1 f) of
                    None \<Rightarrow>
                      (Inl (TypeError ''Cannot read properties of null (reading mainFrame)''), st1)
                  | Some p \<Rightarrow>
                      (case f_window (frames st1 (p_mainFrame (pages st1 p))) of
                         None \<Rightarrow>
                           (Inl (TypeError ''Cannot read properties of null (reading setTimeout)''),
                            st1)
                       | Some mw \<Rightarrow>
                           (Inr None,
                            st1\<lparr>timers := timers st1 @
                              [\<lparr>t_window = mw, t_frame = f, t_readyStateManager = w,
                                t_url = u\<rparr>]\<rparr>))))
          else (Inr None, st))"

text \<open>
  Modelled from the spec: \<open>WindowErrorUtility\<close> is not in \<open>BrowserFrameUtility.ts\<close>.
  \<open>dispatchError\<close> forwards the error to the window's error channel and does not
  throw; \<open>captureError\<close> runs the work and forwards what it throws to \<open>dispatchError\<close>.
\<close>

definition dispatchError :: "store \<Rightarrow> nat \<Rightarrow> error \<Rightarrow> store" where
  "dispatchError st w e = logEvent st (ErrorDispatched w e)"

definition evalInWindow :: "env \<Rightarrow> store \<Rightarrow> nat \<Rightarrow> string \<Rightarrow> (error + unit) \<times> store" where
  "evalInWindow ev st w code =
     (let st1 = logEvent st (Evaluated w code) in
      case evalJS ev w code of
        None \<Rightarrow> (Inr (), st1)
      | Some e \<Rightarrow> (Inl e, st1))"

definition captureError :: "env \<Rightarrow> store \<Rightarrow> nat \<Rightarrow> string \<Rightarrow> store" where
  "captureError ev st w code =
     (case evalInWindow ev st w code of
        (Inr u, st1) \<Rightarrow> st1
      | (Inl e, st1) \<Rightarrow> dispatchError st1 w e)"

text \<open>
  Lines 91 to 99, the body of the callback, run when the timer fires. It reads
  \<open>frame.url\<close>, \<open>frame.page\<close> and \<open>frame.window\<close> as they are then. \<open>Inl\<close> is an error
  that leaves the callback.
\<close>

definition runTimeout :: "env \<Rightarrow> store \<Rightarrow> timeout \<Rightarrow> (error + unit) \<times> store" where
  "runTimeout ev st t =
     (let f = t_frame t in
      case frameUrl st f of
        Inl e \<Rightarrow> (Inl e, st)
      | Inr furl \<Rightarrow>
          (let code = ''//# sourceURL='' @ furl @ [CHR 0x0A] @
                      replace (t_url t) ''javascript:'' []
           in
           case settingsOf st f of
             Inl e \<Rightarrow> (Inl e, st)
           | Inr s \<Rightarrow>
               (case f_window (frames st f) of
                  None \<Rightarrow> (Inl (TypeError ''Cannot read properties of null (reading eval)''), st)
                | Some w \<Rightarrow>
                    if disableErrorCapturing s then
                      (case evalInWindow ev st w code of
                         (Inl e, st1) \<Rightarrow> (Inl e, st1)
                       | (Inr u, st1) \<Rightarrow>
                           (Inr (), logEvent st1 (EndTask (t_readyStateManager t))))
                    else
                      (Inr (),
                       logEvent (captureError ev st w code) (EndTask (t_readyStateManager t))))))"

text \<open>Lines 109 to 112: the navigation is rejected.\<close>

definition rejectNavigation ::
  "env \<Rightarrow> store \<Rightarrow> nat \<Rightarrow> string \<Rightarrow> (error + response option) \<times> store" where
  "rejectNavigation ev st f u =
     (case settingsOf st f of
        Inl e \<Rightarrow> (Inl e, st)
      | Inr s \<Rightarrow>
          if ''url-set-fallback'' \<in> set (browserNavigation s) then
            (case setFrameUrl ev st f u of
               (Inl e, st1) \<Rightarrow> (Inl e, st1)
             | (Inr x, st1) \<Rightarrow> (Inr None, st1))
          else (Inr None, st))"

text \<open>
  Lines 129 to 131. \<open>if (options?.referrer)\<close> holds for a string that is not empty.
\<close>

definition applyReferrer :: "goto_options option \<Rightarrow> window \<Rightarrow> window" where
  "applyReferrer opts nw =
     (case opts of
        None \<Rightarrow> nw
      | Some os \<Rightarrow>
          (case referrer os of
             None \<Rightarrow> nw
           | Some r \<Rightarrow> if r \<noteq> [] then nw\<lparr>w_referrer := r\<rparr> else nw))"

text \<open>
  Lines 119 to 127: the array of children is replaced by an empty one, the old window
  is closed and a new one is constructed, which gets the next free number.
\<close>

definition replaceWindow ::
  "env \<Rightarrow> store \<Rightarrow> nat \<Rightarrow> goto_options option \<Rightarrow> (error + unit) \<times> store" where
  "replaceWindow ev st f opts =
     (let st1 = st\<lparr>frames := (frames st)(f := (frames st f)\<lparr>f_childFrames := []\<rparr>)\<rparr> in
      case f_window (frames st1 f) of
        None \<Rightarrow> (Inl (TypeError ''Cannot set properties of null (setting closed)''), st1)
      | Some w \<Rightarrow>
          (let st2 = st1\<lparr>windows := (windows st1)
                          (w := (windows st1 w)\<lparr>w_closed := True, w_settings := False\<rparr>),
                        frames := (frames st1)
                          (f := (frames st1 f)
                             \<lparr>f_asyncTaskManager := Suc (f_asyncTaskManager (frames st1 f))\<rparr>)\<rparr>
           in
           case f_page (frames st2 f) of
             None \<Rightarrow> (Inl (TypeError ''Cannot read properties of null (reading console)''), st2)
           | Some p \<Rightarrow>
               (let wid = nextWindow st2 in
                (Inr (),
                 st2\<lparr>windows := (windows st2)(wid := applyReferrer opts (windowClass ev f)),
                     frames := (frames st2)(f := (frames st2 f)\<lparr>f_window := Some wid\<rparr>),
                     nextWindow := Suc wid\<rparr>))))"

text \<open>
  Lines 137 to 163. The two \<open>await\<close>s are taken as returning at once: no other code
  runs between the call of \<open>fetch\<close> and the lines after it.
\<close>

definition gotoFetch ::
  "env \<Rightarrow> store \<Rightarrow> nat \<Rightarrow> string \<Rightarrow> goto_options option \<Rightarrow> (error + response option) \<times> store" where
  "gotoFetch ev st f u opts =
     (case setFrameUrl ev st f u of
        (Inl e, st1) \<Rightarrow> (Inl e, st1)
      | (Inr x, st1) \<Rightarrow>
          (case f_window (frames st1 f) of
             None \<Rightarrow>
               (Inl (TypeError ''Cannot read properties of null (reading _readyStateManager)''),
                st1)
           | Some w \<Rightarrow>
               (let st2 = logEvent (logEvent st1 (StartTask w)) (FetchCalled w u) in
                case fetch ev w u opts of
                  FetchRejects e \<Rightarrow>
                    (Inr None, dispatchError (logEvent st2 (EndTask w)) w e)
                | FetchResolves r \<Rightarrow>
                    (case r_text r of
                       Inl e \<Rightarrow> (Inr (Some r), dispatchError (logEvent st2 (EndTask w)) w e)
                     | Inr responseText \<Rightarrow>
                         (case setFrameContent st2 f responseText of
                            (Inl e, st3) \<Rightarrow> (Inl e, st3)
                          | (Inr y, st3) \<Rightarrow> (Inr (Some r), logEvent st3 (EndTask w)))))))"

text \<open>
  Lines 70 to 164. The depth \<open>n\<close> is spent by the loop over the children only. The
  argument \<open>frame.url\<close> of line 107 is read before \<open>isBrowserNavigationAllowed\<close> is
  entered, and only when \<open>isDetachedMainFrame\<close> has returned false. An
  error that \<open>goto\<close> throws (its promise is rejected) is \<open>Inl\<close>; \<open>Inr None\<close> is the
  \<open>null\<close> it returns for no content.
\<close>

definition goto ::
  "nat \<Rightarrow> env \<Rightarrow> store \<Rightarrow> nat \<Rightarrow> string \<Rightarrow> goto_options option \<Rightarrow>
     ((error + response option) \<times> store) option" where
  "goto n ev st f url0 opts =
     (case getRelativeURL ev st f url0 of
        Inl e \<Rightarrow> Some (Inl e, st)
      | Inr u \<Rightarrow>
          if startsWith u ''javascript:'' then Some (gotoJavascript st f u)
          else
            (case isDetachedMainFrame st f of
               Inl e \<Rightarrow> Some (Inl e, st)
             | Inr True \<Rightarrow> Some (rejectNavigation ev st f u)
             | Inr False \<Rightarrow>
                 (case frameUrl st f of
                    Inl e \<Rightarrow> Some (Inl e, st)
                  | Inr fromURL \<Rightarrow>
                      (case isBrowserNavigationAllowed ev st f fromURL u of
                         Inl e \<Rightarrow> Some (Inl e, st)
                       | Inr False \<Rightarrow> Some (rejectNavigation ev st f u)
                       | Inr True \<Rightarrow>
                           (case closeLoop n st f 0 of
                              None \<Rightarrow> None
                            | Some (Inl e, st1) \<Rightarrow> Some (Inl e, st1)
                            | Some (Inr x, st1) \<Rightarrow>
                                (case replaceWindow ev st1 f opts of
                                   (Inl e, st2) \<Rightarrow> Some (Inl e, st2)
                                 | (Inr y, st2) \<Rightarrow>
                                     if u = [] \<or> startsWith u ''about:''
                                     then Some (Inr None, st2)
                                     else Some (gotoFetch ev st2 f u opts)))))))"

section \<open>The timer queue and the ready-state gate\<close>

text \<open>
  Modelled from the spec: \<open>setTimeout\<close> and the loop that fires the timers are not in
  \<open>BrowserFrameUtility.ts\<close>. The callbacks run in the order they were scheduled, after
  the call that scheduled them has returned; an error that leaves a callback is
  uncaught and does not stop the callbacks after it.
\<close>

fun runTimers :: "env \<Rightarrow> store \<Rightarrow> timeout list \<Rightarrow> error list \<times> store" where
  "runTimers ev st [] = ([], st)"
| "runTimers ev st (t # ts) =
     (case runTimeout ev st t of
        (Inl e, st1) \<Rightarrow> (case runTimers ev st1 ts of (es, st2) \<Rightarrow> (e # es, st2))
      | (Inr u, st1) \<Rightarrow> runTimers ev st1 ts)"

definition fireTimers :: "env \<Rightarrow> store \<Rightarrow> error list \<times> store" where
  "fireTimers ev st = runTimers ev (st\<lparr>timers := []\<rparr>) (timers st)"

text \<open>
  Modelled from the spec: \<open>DocumentReadyStateManager\<close> is not in
  \<open>BrowserFrameUtility.ts\<close>. The gate of a window is open while more tasks were started
  on its ready-state manager than were ended.
\<close>

definition started :: "event list \<Rightarrow> nat \<Rightarrow> nat" where
  "started es w = length (filter (\<lambda>e. e = StartTask w) es)"

definition ended :: "event list \<Rightarrow> nat \<Rightarrow> nat" where
  "ended es w = length (filter (\<lambda>e. e = EndTask w) es)"

definition gateOpen :: "event list \<Rightarrow> nat \<Rightarrow> bool" where
  "gateOpen es w = (ended es w < started es w)"

section \<open>Frame trees\<close>

text \<open>
  The children of a frame form a tree when every frame can be given a rank that is
  larger than the rank of each of its children: no frame is its own descendant.
\<close>

definition ranked :: "(nat \<Rightarrow> nat) \<Rightarrow> store \<Rightarrow> bool" where
  "ranked rk st = (\<forall>f. \<forall>c \<in> set (f_childFrames (frames st f)). rk c < rk f)"

text \<open>
  What closing frames never changes, and what it can only shrink: no frame gets a new
  child.
\<close>

definition closeRel :: "store \<Rightarrow> store \<Rightarrow> bool" where
  "closeRel st st' =
     (pages st' = pages st \<and> contexts st' = contexts st \<and> browsers st' = browsers st \<and>
      nextFrame st' = nextFrame st \<and> nextWindow st' = nextWindow st \<and>
      timers st' = timers st \<and> trace st' = trace st \<and>
      (\<forall>g. f_parentFrame (frames st' g) = f_parentFrame (frames st g) \<and>
           f_detached (frames st' g) = f_detached (frames st g) \<and>
           set (f_childFrames (frames st' g)) \<subseteq> set (f_childFrames (frames st g)) \<and>
           length (f_childFrames (frames st' g)) \<le> length (f_childFrames (frames st g))) \<and>
      (\<forall>w. w_href (windows st' w) = w_href (windows st w) \<and>
           w_hostname (windows st' w) = w_hostname (windows st w) \<and>
           w_referrer (windows st' w) = w_referrer (windows st w) \<and>
           w_content (windows st' w) = w_content (windows st w)))"

text \<open>The frames of rank \<open>k\<close> and above keep their window, page and task manager.\<close>

definition unchangedAbove :: "(nat \<Rightarrow> nat) \<Rightarrow> nat \<Rightarrow> store \<Rightarrow> store \<Rightarrow> bool" where
  "unchangedAbove rk k st st' =
     (\<forall>g. k \<le> rk g \<longrightarrow>
        f_window (frames st' g) = f_window (frames st g) \<and>
        f_page (frames st' g) = f_page (frames st g) \<and>
        f_asyncTaskManager (frames st' g) = f_asyncTaskManager (frames st g))"

section \<open>A small browser for the examples\<close>

text \<open>
  One browser with one context and one page, whose main frame is frame 0 with window 0 at
  \<open>https://a.test/\<close>, showing a loaded document. The window constructor makes windows
  at \<open>about:blank\<close> with an empty document. The URL functions know two hosts; a fetch of
  \<open>https://a.test/ok\<close> succeeds, that of \<open>https://a.test/broken-body\<close> gives a
  response whose body cannot be read, every other fetch is rejected.
\<close>

definition exOrigin :: "string \<Rightarrow> string option" where
  "exOrigin s =
     (if startsWith s ''https://a.test/'' then Some ''https://a.test''
      else if startsWith s ''https://b.test/'' then Some ''https://b.test''
      else if startsWith s ''about:'' then Some ''null''
      else None)"

definition exResolve :: "string \<Rightarrow> string \<Rightarrow> string option" where
  "exResolve input base =
     (case exOrigin input of
        Some x \<Rightarrow> Some input
      | None \<Rightarrow>
          if startsWith input ''https:'' then None
          else if startsWith base ''https://a.test/'' then Some (''https://a.test/'' @ input)
          else None)"

definition exHostname :: "string \<Rightarrow> string" where
  "exHostname s =
     (if startsWith s ''https://a.test/'' then ''a.test''
      else if startsWith s ''https://b.test/'' then ''b.test''
      else [])"

definition exFetch :: "nat \<Rightarrow> string \<Rightarrow> goto_options option \<Rightarrow> fetch_result" where
  "exFetch w u opts =
     (if u = ''https://a.test/ok'' then
        FetchResolves \<lparr>r_id = 1, r_text = Inr ''<html></html>''\<rparr>
      else if u = ''https://a.test/broken-body'' then
        FetchResolves \<lparr>r_id = 2, r_text = Inl (Thrown ''body stream failed'')\<rparr>
      else FetchRejects (Thrown ''network error''))"

definition exEval :: "nat \<Rightarrow> string \<Rightarrow> error option" where
  "exEval w code =
     (if code = ''//# sourceURL=https://a.test/'' @ [CHR 0x0A] @ ''throw 1''
      then Some (Thrown ''1'') else None)"

definition exWindow :: window where
  "exWindow = \<lparr>w_closed = False, w_href = ''about:blank'', w_hostname = [],
               w_referrer = [], w_content = [], w_settings = True\<rparr>"

definition exEnv :: env where
  "exEnv = \<lparr>url_resolve = exResolve, url_origin = exOrigin, url_hostname = exHostname,
            fetch = exFetch, evalJS = exEval, windowClass = (\<lambda>f. exWindow)\<rparr>"

definition exSettings :: "bool \<Rightarrow> string list \<Rightarrow> settings" where
  "exSettings noCapture nav =
     \<lparr>disableJavaScriptEvaluation = False, disableErrorCapturing = noCapture,
      browserNavigation = nav\<rparr>"

definition closedFrame :: frame where
  "closedFrame = \<lparr>f_window = None, f_page = None, f_parentFrame = None, f_childFrames = [],
                  f_asyncTaskManager = 0, f_detached = False\<rparr>"

definition exStore :: "settings \<Rightarrow> store" where
  "exStore s =
     \<lparr>frames = (\<lambda>i. closedFrame)
        (0 := \<lparr>f_window = Some 0, f_page = Some 0, f_parentFrame = None, f_childFrames = [],
                f_asyncTaskManager = 0, f_detached = False\<rparr>),
      windows = (\<lambda>i. exWindow)
        (0 := \<lparr>w_closed = False, w_href = ''https://a.test/'', w_hostname = ''a.test'',
                w_referrer = [], w_content = ''<html>home</html>'', w_settings = True\<rparr>),
      pages = (\<lambda>i. \<lparr>p_mainFrame = 0, p_context = 0\<rparr>),
      contexts = (\<lambda>i. \<lparr>c_pages = [0], c_browser = 0\<rparr>),
      browsers = (\<lambda>i. \<lparr>b_defaultContext = 0, b_settings = s\<rparr>),
      nextFrame = 1, nextWindow = 1, timers = [], trace = []\<rparr>"

text \<open>The main frame with two children, frames 1 and 2, made by \<open>newFrame\<close>.\<close>

definition exTwoChildren :: "settings \<Rightarrow> store" where
  "exTwoChildren s = snd (newFrame exEnv (snd (newFrame exEnv (exStore s) 0)) 0)"

text \<open>The main frame at \<open>about:blank\<close>, as a page is before its first navigation.\<close>

definition exBlankStore :: "settings \<Rightarrow> store" where
  "exBlankStore s = (exStore s)\<lparr>windows := (\<lambda>i. exWindow)\<rparr>"

section \<open>Closing frames: what stays, and termination on trees\<close>

text \<open>
  The lemmas of this section are about \<open>closeFrame\<close> and its loop over the children:
  they change no URL, no content, no trace and give no frame a new child; with more
  depth they return the same; on a tree they touch no frame that is not below the
  frame they close, throw nothing, and return.
\<close>

lemma closeRel_refl: "closeRel st st"
  by (simp add: closeRel_def)

lemma closeRel_trans: "closeRel a b \<Longrightarrow> closeRel b c \<Longrightarrow> closeRel a c"
  unfolding closeRel_def
  apply (elim conjE)
  apply (intro conjI allI)
  apply (simp_all (no_asm_simp))
  apply (meson subset_trans)
  apply (meson order_trans)
  done

lemma set_splice1: "set (splice1 xs i) \<subseteq> set xs"
  unfolding splice1_def using set_take_subset [of i xs] set_drop_subset [of "Suc i" xs] by auto

lemma length_splice1: "length (splice1 xs i) \<le> length xs"
  unfolding splice1_def by auto

lemma closeRel_detach: "closeRel st (detachFromParent st f)"
  using set_splice1 length_splice1
  by (auto simp add: closeRel_def detachFromParent_def split: option.splits)

lemma closeRel_finalize: "finalizeFrame st f = (r, st') \<Longrightarrow> closeRel st st'"
  by (auto simp add: closeRel_def finalizeFrame_def split: option.splits if_splits)

lemma close_closeRel:
  "(\<forall>st f r st'. closeFrame n st f = Some (r, st') \<longrightarrow> closeRel st st') \<and>
   (\<forall>st f i r st'. closeLoop n st f i = Some (r, st') \<longrightarrow> closeRel st st')"
proof (induction n)
  case 0
  show ?case by simp
next
  case (Suc n)
  have frameIH: "\<And>st f r st'. closeFrame n st f = Some (r, st') \<Longrightarrow> closeRel st st'"
    using Suc by blast
  have loopIH: "\<And>st f i r st'. closeLoop n st f i = Some (r, st') \<Longrightarrow> closeRel st st'"
    using Suc by blast
  have A: "closeRel st st'" if h: "closeFrame (Suc n) st f = Some (r, st')" for st f r st'
  proof (cases "f_window (frames st f)")
    case None
    with h show ?thesis by (simp add: closeRel_refl)
  next
    case (Some w)
    show ?thesis
    proof (cases "closeLoop n (detachFromParent st f) f 0")
      case None
      with h Some show ?thesis by simp
    next
      case (Some res)
      obtain r1 st1 where res: "res = (r1, st1)" by (cases res)
      have r1: "closeRel st st1"
        using loopIH Some res closeRel_detach closeRel_trans by blast
      show ?thesis
      proof (cases r1)
        case (Inl e)
        with h \<open>f_window (frames st f) = Some w\<close> Some res r1 show ?thesis by simp
      next
        case (Inr u)
        with h \<open>f_window (frames st f) = Some w\<close> Some res
        have "finalizeFrame st1 f = (r, st')" by simp
        then show ?thesis using r1 closeRel_finalize closeRel_trans by blast
      qed
    qed
  qed
  have B: "closeRel st st'" if h: "closeLoop (Suc n) st f i = Some (r, st')" for st f i r st'
  proof (cases "i < length (f_childFrames (frames st f))")
    case False
    with h show ?thesis by (simp add: closeRel_refl)
  next
    case True
    show ?thesis
    proof (cases "closeFrame n st (f_childFrames (frames st f) ! i)")
      case None
      with h True show ?thesis by simp
    next
      case (Some res)
      obtain r1 st1 where res: "res = (r1, st1)" by (cases res)
      have r1: "closeRel st st1" using frameIH Some res by blast
      show ?thesis
      proof (cases r1)
        case (Inl e)
        with h True Some res r1 show ?thesis by simp
      next
        case (Inr u)
        with h True Some res have "closeLoop n st1 f (Suc i) = Some (r, st')" by simp
        then show ?thesis using r1 loopIH closeRel_trans by blast
      qed
    qed
  qed
  show ?case using A B by blast
qed


lemma close_mono:
  "(\<forall>st f r m. closeFrame n st f = Some r \<longrightarrow> n \<le> m \<longrightarrow> closeFrame m st f = Some r) \<and>
   (\<forall>st f i r m. closeLoop n st f i = Some r \<longrightarrow> n \<le> m \<longrightarrow> closeLoop m st f i = Some r)"
proof (induction n)
  case 0
  show ?case by simp
next
  case (Suc n)
  have frameIH: "\<And>st f r m. closeFrame n st f = Some r \<Longrightarrow> n \<le> m \<Longrightarrow> closeFrame m st f = Some r"
    using Suc by blast
  have loopIH: "\<And>st f i r m. closeLoop n st f i = Some r \<Longrightarrow> n \<le> m \<Longrightarrow> closeLoop m st f i = Some r"
    using Suc by blast
  have A: "closeFrame m st f = Some r"
    if h: "closeFrame (Suc n) st f = Some r" and le: "Suc n \<le> m" for st f r m
  proof -
    obtain m' where m: "m = Suc m'" and le': "n \<le> m'" using le by (cases m) auto
    show ?thesis
    proof (cases "closeLoop n (detachFromParent st f) f 0")
      case None
      with h m show ?thesis by (simp split: option.splits)
    next
      case (Some res)
      then have "closeLoop m' (detachFromParent st f) f 0 = Some res" using loopIH le' by blast
      with h m Some show ?thesis by (simp split: option.splits)
    qed
  qed
  have B: "closeLoop m st f i = Some r"
    if h: "closeLoop (Suc n) st f i = Some r" and le: "Suc n \<le> m" for st f i r m
  proof -
    obtain m' where m: "m = Suc m'" and le': "n \<le> m'" using le by (cases m) auto
    show ?thesis
    proof (cases "i < length (f_childFrames (frames st f))")
      case False
      with h m show ?thesis by simp
    next
      case True
      show ?thesis
      proof (cases "closeFrame n st (f_childFrames (frames st f) ! i)")
        case None
        with h True show ?thesis by simp
      next
        case (Some res)
        then have c: "closeFrame m' st (f_childFrames (frames st f) ! i) = Some res"
          using frameIH le' by blast
        obtain r1 st1 where res: "res = (r1, st1)" by (cases res)
        show ?thesis
        proof (cases r1)
          case (Inl e)
          with h True Some c res m show ?thesis by auto
        next
          case (Inr u)
          with h True Some res have "closeLoop n st1 f (Suc i) = Some r" by simp
          then have "closeLoop m' st1 f (Suc i) = Some r" using loopIH le' by blast
          with True c res Inr m show ?thesis by simp
        qed
      qed
    qed
  qed
  show ?case using A B by blast
qed

lemma ranked_closeRel: "ranked rk st \<Longrightarrow> closeRel st st' \<Longrightarrow> ranked rk st'"
  unfolding ranked_def closeRel_def by blast

lemma unchangedAbove_refl: "unchangedAbove rk k st st"
  by (simp add: unchangedAbove_def)

lemma unchangedAbove_trans:
  "unchangedAbove rk k a b \<Longrightarrow> unchangedAbove rk k b c \<Longrightarrow> unchangedAbove rk k a c"
  by (simp add: unchangedAbove_def)

lemma unchangedAbove_weaken:
  "unchangedAbove rk k a b \<Longrightarrow> k \<le> k' \<Longrightarrow> unchangedAbove rk k' a b"
  by (simp add: unchangedAbove_def)

lemma unchangedAbove_detach: "unchangedAbove rk k st (detachFromParent st f)"
  by (auto simp add: unchangedAbove_def detachFromParent_def split: option.splits)

lemma finalize_open:
  "f_window (frames st f) = Some w \<Longrightarrow>
   \<exists>st'. finalizeFrame st f = (Inr (), st') \<and> unchangedAbove rk (Suc (rk f)) st st' \<and>
         f_window (frames st' f) = None \<and> f_page (frames st' f) = None"
  by (auto simp add: finalizeFrame_def unchangedAbove_def)

lemma close_ranked:
  "(\<forall>st f r st'. ranked rk st \<longrightarrow> closeFrame n st f = Some (r, st') \<longrightarrow>
       r = Inr () \<and> unchangedAbove rk (Suc (rk f)) st st') \<and>
   (\<forall>st f i r st'. ranked rk st \<longrightarrow> closeLoop n st f i = Some (r, st') \<longrightarrow>
       r = Inr () \<and> unchangedAbove rk (rk f) st st')"
proof (induction n)
  case 0
  show ?case by simp
next
  case (Suc n)
  have frameIH: "\<And>st f r st'. ranked rk st \<Longrightarrow> closeFrame n st f = Some (r, st') \<Longrightarrow>
       r = Inr () \<and> unchangedAbove rk (Suc (rk f)) st st'"
    using Suc by blast
  have loopIH: "\<And>st f i r st'. ranked rk st \<Longrightarrow> closeLoop n st f i = Some (r, st') \<Longrightarrow>
       r = Inr () \<and> unchangedAbove rk (rk f) st st'"
    using Suc by blast
  have A: "r = Inr () \<and> unchangedAbove rk (Suc (rk f)) st st'"
    if rk: "ranked rk st" and h: "closeFrame (Suc n) st f = Some (r, st')" for st f r st'
  proof (cases "f_window (frames st f)")
    case None
    with h show ?thesis by (simp add: unchangedAbove_refl)
  next
    case (Some w)
    show ?thesis
    proof (cases "closeLoop n (detachFromParent st f) f 0")
      case None
      with h Some show ?thesis by simp
    next
      case (Some res)
      obtain r1 st1 where res: "res = (r1, st1)" by (cases res)
      have rk0: "ranked rk (detachFromParent st f)"
        using rk closeRel_detach ranked_closeRel by blast
      have l: "r1 = Inr () \<and> unchangedAbove rk (rk f) (detachFromParent st f) st1"
        using loopIH [OF rk0] Some res by blast
      then have u1: "unchangedAbove rk (rk f) st st1"
        using unchangedAbove_detach unchangedAbove_trans by blast
      then have w1: "f_window (frames st1 f) = Some w"
        using \<open>f_window (frames st f) = Some w\<close> by (simp add: unchangedAbove_def)
      obtain st2 where fin: "finalizeFrame st1 f = (Inr (), st2)"
        and u2: "unchangedAbove rk (Suc (rk f)) st1 st2"
        using finalize_open [OF w1] by blast
      from h \<open>f_window (frames st f) = Some w\<close> Some res l fin
      have "r = Inr ()" and "st' = st2" by simp_all
      moreover have "unchangedAbove rk (Suc (rk f)) st st2"
        using u1 u2 by (simp add: unchangedAbove_def)
      ultimately show ?thesis by simp
    qed
  qed
  have B: "r = Inr () \<and> unchangedAbove rk (rk f) st st'"
    if rk: "ranked rk st" and h: "closeLoop (Suc n) st f i = Some (r, st')" for st f i r st'
  proof (cases "i < length (f_childFrames (frames st f))")
    case False
    with h show ?thesis by (simp add: unchangedAbove_refl)
  next
    case True
    define c where "c = f_childFrames (frames st f) ! i"
    have "c \<in> set (f_childFrames (frames st f))" using True c_def by simp
    then have lt: "rk c < rk f" using rk by (simp add: ranked_def)
    show ?thesis
    proof (cases "closeFrame n st c")
      case None
      with h True c_def show ?thesis by simp
    next
      case (Some res)
      obtain r1 st1 where res: "res = (r1, st1)" by (cases res)
      have c1: "r1 = Inr () \<and> unchangedAbove rk (Suc (rk c)) st st1"
        using frameIH [OF rk] Some res by blast
      then have u1: "unchangedAbove rk (rk f) st st1"
        using lt unchangedAbove_weaken [of rk "Suc (rk c)" st st1 "rk f"] by simp
      have rk1: "ranked rk st1"
        using rk Some res close_closeRel ranked_closeRel by blast
      from h True Some res c1 c_def have "closeLoop n st1 f (Suc i) = Some (r, st')" by simp
      then have "r = Inr () \<and> unchangedAbove rk (rk f) st1 st'"
        using loopIH [OF rk1] by blast
      then show ?thesis using u1 unchangedAbove_trans by blast
    qed
  qed
  show ?case using A B by blast
qed


lemma closeFrame_mono: "closeFrame n st f = Some r \<Longrightarrow> n \<le> m \<Longrightarrow> closeFrame m st f = Some r"
  using close_mono by blast

lemma closeLoop_mono: "closeLoop n st f i = Some r \<Longrightarrow> n \<le> m \<Longrightarrow> closeLoop m st f i = Some r"
  using close_mono by blast

lemma closeFrame_closeRel: "closeFrame n st f = Some (r, st') \<Longrightarrow> closeRel st st'"
  using close_closeRel by blast

lemma closeLoop_closeRel: "closeLoop n st f i = Some (r, st') \<Longrightarrow> closeRel st st'"
  using close_closeRel by blast

lemma closeLoop_returns:
  assumes sub: "\<And>s c. rk c < rk f \<Longrightarrow> ranked rk s \<Longrightarrow> \<exists>n r. closeFrame n s c = Some r"
  shows "ranked rk s \<Longrightarrow> \<exists>n r. closeLoop n s f i = Some r"
proof (induction "length (f_childFrames (frames s f)) - i" arbitrary: s i rule: less_induct)
  case less
  show ?case
  proof (cases "i < length (f_childFrames (frames s f))")
    case False
    then have "closeLoop (Suc 0) s f i = Some (Inr (), s)" by simp
    then show ?thesis by blast
  next
    case True
    define c where "c = f_childFrames (frames s f) ! i"
    have "c \<in> set (f_childFrames (frames s f))" using True c_def by simp
    then have "rk c < rk f" using less.prems by (simp add: ranked_def)
    then obtain n1 r1 where c1: "closeFrame n1 s c = Some r1"
      using sub less.prems by blast
    obtain x s1 where r1: "r1 = (x, s1)" by (cases r1)
    show ?thesis
    proof (cases x)
      case (Inl e)
      with c1 r1 True c_def have "closeLoop (Suc n1) s f i = Some (Inl e, s1)" by simp
      then show ?thesis by blast
    next
      case (Inr u)
      have rel: "closeRel s s1" using c1 r1 closeFrame_closeRel by blast
      then have rk1: "ranked rk s1" using less.prems ranked_closeRel by blast
      have "length (f_childFrames (frames s1 f)) \<le> length (f_childFrames (frames s f))"
        using rel by (simp add: closeRel_def)
      then have "length (f_childFrames (frames s1 f)) - Suc i
                   < length (f_childFrames (frames s f)) - i"
        using True by arith
      then obtain n2 r2 where l2: "closeLoop n2 s1 f (Suc i) = Some r2"
        using less.hyps rk1 by blast
      have "closeFrame (max n1 n2) s c = Some (Inr u, s1)"
        using c1 r1 Inr closeFrame_mono [of n1 s c r1 "max n1 n2"] by simp
      moreover have "closeLoop (max n1 n2) s1 f (Suc i) = Some r2"
        using l2 closeLoop_mono [of n2 s1 f "Suc i" r2 "max n1 n2"] by simp
      ultimately have "closeLoop (Suc (max n1 n2)) s f i = Some r2"
        using True c_def by simp
      then show ?thesis by blast
    qed
  qed
qed

lemma closeFrame_returns: "ranked rk st \<Longrightarrow> \<exists>n r. closeFrame n st f = Some r"
proof (induction "rk f" arbitrary: st f rule: less_induct)
  case less
  show ?case
  proof (cases "f_window (frames st f)")
    case None
    then have "closeFrame (Suc 0) st f = Some (Inr (), st)" by simp
    then show ?thesis by blast
  next
    case (Some w)
    have "ranked rk (detachFromParent st f)"
      using less.prems closeRel_detach ranked_closeRel by blast
    then obtain n r where l: "closeLoop n (detachFromParent st f) f 0 = Some r"
      using closeLoop_returns [of rk f "detachFromParent st f" 0] less.hyps by blast
    obtain x s1 where r: "r = (x, s1)" by (cases r)
    have "\<exists>r'. closeFrame (Suc n) st f = Some r'"
      using Some l r by (cases x) simp_all
    then show ?thesis by blast
  qed
qed

lemma closeFrame_total:
  assumes "ranked rk st"
  shows "\<exists>n st'. closeFrame n st f = Some (Inr (), st')"
proof -
  obtain n r where h: "closeFrame n st f = Some r" using closeFrame_returns [OF assms] by blast
  obtain x st' where r: "r = (x, st')" by (cases r)
  have "x = Inr ()" using close_ranked assms h r by blast
  then show ?thesis using h r by blast
qed

lemma closeLoop_total:
  assumes "ranked rk st"
  shows "\<exists>n st'. closeLoop n st f i = Some (Inr (), st')"
proof -
  obtain n r where h: "closeLoop n st f i = Some r"
    using closeLoop_returns [of rk f st i] closeFrame_returns assms by blast
  obtain x st' where r: "r = (x, st')" by (cases r)
  have "x = Inr ()" using close_ranked assms h r by blast
  then show ?thesis using h r by blast
qed

section \<open>closeFrame and the children (C1)\<close>

lemma exTwoChildren_frames:
  "frames (exTwoChildren s) = (frames (exStore s))
     (0 := (frames (exStore s) 0)\<lparr>f_childFrames := [1, 2]\<rparr>,
      1 := \<lparr>f_window = Some 1, f_page = Some 0, f_parentFrame = Some 0, f_childFrames = [],
             f_asyncTaskManager = 0, f_detached = False\<rparr>,
      2 := \<lparr>f_window = Some 2, f_page = Some 0, f_parentFrame = Some 0, f_childFrames = [],
             f_asyncTaskManager = 0, f_detached = False\<rparr>)"
  by (auto simp add: exTwoChildren_def newFrame_def constructFrame_def exStore_def Let_def
        fun_eq_iff)

text \<open>
  C1. The claim: after \<open>closeFrame(F)\<close> every child of \<open>F\<close> is closed. The main frame 0
  has the children 1 and 2, both made by \<open>newFrame\<close>. \<open>closeFrame\<close> of frame 0 closes
  frame 1, which splices frame 1 out of the array the loop is walking; the iterator
  moves on to index 1 of an array that has one element left, and the loop ends. Frame 2
  keeps its window and its page, and its window is not marked closed.
\<close>

theorem closeFrame_leaves_second_child_open:
  "\<exists>st'. closeFrame 5 (exTwoChildren (exSettings False [])) 0 = Some (Inr (), st') \<and>
         f_window (frames st' 0) = None \<and>
         f_window (frames st' 1) = None \<and> f_page (frames st' 1) = None \<and>
         f_window (frames st' 2) = Some 2 \<and> f_page (frames st' 2) = Some 0 \<and>
         \<not> w_closed (windows st' 2)"
  by (simp add: eval_nat_numeral exTwoChildren_def newFrame_def constructFrame_def exStore_def
        exEnv_def exWindow_def exSettings_def closedFrame_def
        detachFromParent_def finalizeFrame_def splice1_def Let_def)

section \<open>closeFrame twice (C9)\<close>

lemma closeFrame_closes:
  assumes "closeFrame n st f = Some (Inr (), st')"
  shows "f_window (frames st' f) = None"
proof (cases n)
  case 0
  with assms show ?thesis by simp
next
  case (Suc k)
  show ?thesis
  proof (cases "f_window (frames st f)")
    case None
    with assms Suc show ?thesis by simp
  next
    case (Some w)
    show ?thesis
    proof (cases "closeLoop k (detachFromParent st f) f 0")
      case None
      with assms Suc Some show ?thesis by simp
    next
      case (Some res)
      obtain x s1 where res: "res = (x, s1)" by (cases res)
      show ?thesis
      proof (cases x)
        case (Inl e)
        with assms Suc \<open>f_window (frames st f) = Some w\<close> Some res show ?thesis by simp
      next
        case (Inr u)
        with assms Suc \<open>f_window (frames st f) = Some w\<close> Some res
        have "finalizeFrame s1 f = (Inr (), st')" by simp
        then show ?thesis
          by (auto simp add: finalizeFrame_def split: option.splits)
      qed
    qed
  qed
qed

text \<open>
  C9. Whenever \<open>closeFrame(F)\<close> returns, a second call returns at once and leaves the
  store as the first call left it, since \<open>F.window\<close> is absent by then; and on a frame
  tree the first call does return, for every depth that is large enough.
\<close>

theorem closeFrame_idempotent:
  "(\<forall>n st'. closeFrame n st f = Some (Inr (), st') \<longrightarrow>
       f_window (frames st' f) = None \<and>
       (\<forall>m. closeFrame (Suc m) st' f = Some (Inr (), st'))) \<and>
   (ranked rk st \<longrightarrow>
       (\<exists>n st'. \<forall>m\<ge>n. closeFrame m st f = Some (Inr (), st')))"
proof (intro conjI allI impI)
  fix n st' m
  assume h: "closeFrame n st f = Some (Inr (), st')"
  show w: "f_window (frames st' f) = None" using closeFrame_closes [OF h] .
  show "closeFrame (Suc m) st' f = Some (Inr (), st')" using w by simp
next
  assume "ranked rk st"
  then obtain n st' where "closeFrame n st f = Some (Inr (), st')"
    using closeFrame_total by blast
  then have "\<forall>m\<ge>n. closeFrame m st f = Some (Inr (), st')"
    using closeFrame_mono by blast
  then show "\<exists>n st'. \<forall>m\<ge>n. closeFrame m st f = Some (Inr (), st')" by blast
qed

lemma ranked_exTwoChildren: "ranked (\<lambda>i. if i = 0 then 1 else 0) (exTwoChildren s)"
  by (simp add: ranked_def exTwoChildren_frames exStore_def closedFrame_def)

theorem closeFrame_idempotent_witness:
  "ranked (\<lambda>i. if i = 0 then 1 else 0) (exTwoChildren (exSettings False [])) \<and>
   (\<exists>st'. closeFrame 5 (exTwoChildren (exSettings False [])) 0 = Some (Inr (), st') \<and>
          f_window (frames st' 0) = None \<and>
          closeFrame 1 st' 0 = Some (Inr (), st') \<and>
          closeFrame 7 st' 0 = Some (Inr (), st')) \<and>
   (\<exists>n st'. \<forall>m\<ge>n. closeFrame m (exTwoChildren (exSettings False [])) 0 = Some (Inr (), st'))"
proof -
  obtain st' where h: "closeFrame 5 (exTwoChildren (exSettings False [])) 0 = Some (Inr (), st')"
    by (simp add: eval_nat_numeral exTwoChildren_def newFrame_def constructFrame_def exStore_def
        exEnv_def exWindow_def exSettings_def closedFrame_def
        detachFromParent_def finalizeFrame_def splice1_def Let_def)
  have "f_window (frames st' 0) = None \<and> (\<forall>m. closeFrame (Suc m) st' 0 = Some (Inr (), st'))"
    using closeFrame_idempotent [of "exTwoChildren (exSettings False [])" 0] h by blast
  then have "f_window (frames st' 0) = None \<and> closeFrame (Suc 0) st' 0 = Some (Inr (), st') \<and>
             closeFrame (Suc 6) st' 0 = Some (Inr (), st')"
    by blast
  moreover have "\<exists>n st'. \<forall>m\<ge>n. closeFrame m (exTwoChildren (exSettings False [])) 0 = Some (Inr (), st')"
    using closeFrame_idempotent [of "exTwoChildren (exSettings False [])" 0
        "\<lambda>i. if i = 0 then 1 else 0"] ranked_exTwoChildren
    by blast
  ultimately show ?thesis using h ranked_exTwoChildren by auto
qed


section \<open>The navigation policy (C5, C6)\<close>

lemma settingsOf_page:
  "f_page (frames st f) = Some p \<Longrightarrow>
   settingsOf st f = Inr (b_settings (browsers st (c_browser (contexts st (p_context (pages st p))))))"
  by (simp add: settingsOf_def)

text \<open>
  C5. On a frame that has a page, \<open>isBrowserNavigationAllowed\<close> returns false exactly
  when the policy contains \<open>deny\<close>, or contains \<open>sameorigin\<close> and the origins of the
  two URLs differ, or contains \<open>child-only\<close> and the frame is the main frame of its
  page; otherwise it returns true. The origins are compared only when the policy has
  \<open>sameorigin\<close> and no \<open>deny\<close>, and there both strings must be URLs.
\<close>

theorem isBrowserNavigationAllowed_decides:
  assumes pg: "f_page (frames st f) = Some p"
    and s: "settingsOf st f = Inr s"
    and parse: "''deny'' \<in> set (browserNavigation s) \<or>
                ''sameorigin'' \<notin> set (browserNavigation s) \<or>
                (url_origin ev fromURL \<noteq> None \<and> url_origin ev toURL \<noteq> None)"
  shows "isBrowserNavigationAllowed ev st f fromURL toURL =
         Inr (\<not> (''deny'' \<in> set (browserNavigation s) \<or>
                  (''sameorigin'' \<in> set (browserNavigation s) \<and>
                     url_origin ev fromURL \<noteq> url_origin ev toURL) \<or>
                  (''child-only'' \<in> set (browserNavigation s) \<and>
                     p_mainFrame (pages st p) = f)))"
proof -
  have s': "s = b_settings (browsers st (c_browser (contexts st (p_context (pages st p)))))"
    using settingsOf_page [OF pg] s by simp
  show ?thesis
    using parse unfolding isBrowserNavigationAllowed_def
    by (auto simp add: pg s' Let_def split: option.splits)
qed

lemma exStore_page: "f_page (frames (exStore s) 0) = Some 0"
  by (simp add: exStore_def)

lemma exStore_settings: "settingsOf (exStore s) 0 = Inr s"
  by (simp add: settingsOf_def exStore_def)

lemma exStore_main: "p_mainFrame (pages (exStore s) 0) = 0"
  by (simp add: exStore_def)

theorem isBrowserNavigationAllowed_decides_witness:
  "isBrowserNavigationAllowed exEnv (exStore (exSettings False [''sameorigin''])) 0
      ''https://a.test/x'' ''https://b.test/y'' = Inr False \<and>
   isBrowserNavigationAllowed exEnv (exStore (exSettings False [''sameorigin''])) 0
      ''https://a.test/x'' ''https://a.test/z'' = Inr True \<and>
   isBrowserNavigationAllowed exEnv (exStore (exSettings False [''deny''])) 0
      ''not a url'' ''https://a.test/z'' = Inr False \<and>
   isBrowserNavigationAllowed exEnv (exStore (exSettings False [''child-only''])) 0
      ''https://a.test/x'' ''https://a.test/z'' = Inr False"
proof -
  have o: "url_origin exEnv ''https://a.test/x'' = Some ''https://a.test''"
    "url_origin exEnv ''https://b.test/y'' = Some ''https://b.test''"
    "url_origin exEnv ''https://a.test/z'' = Some ''https://a.test''"
    by (simp_all add: exEnv_def exOrigin_def startsWith_def)
  have 1: "isBrowserNavigationAllowed exEnv (exStore (exSettings False [''sameorigin''])) 0
      ''https://a.test/x'' ''https://b.test/y'' = Inr False"
    using isBrowserNavigationAllowed_decides [OF exStore_page exStore_settings,
        of "exSettings False [''sameorigin'']" exEnv "''https://a.test/x''" "''https://b.test/y''"]
    by (simp add: o exSettings_def exStore_main)
  have 2: "isBrowserNavigationAllowed exEnv (exStore (exSettings False [''sameorigin''])) 0
      ''https://a.test/x'' ''https://a.test/z'' = Inr True"
    using isBrowserNavigationAllowed_decides [OF exStore_page exStore_settings,
        of "exSettings False [''sameorigin'']" exEnv "''https://a.test/x''" "''https://a.test/z''"]
    by (simp add: o exSettings_def exStore_main)
  have 3: "isBrowserNavigationAllowed exEnv (exStore (exSettings False [''deny''])) 0
      ''not a url'' ''https://a.test/z'' = Inr False"
    using isBrowserNavigationAllowed_decides [OF exStore_page exStore_settings,
        of "exSettings False [''deny'']" exEnv "''not a url''" "''https://a.test/z''"]
    by (simp add: exSettings_def)
  have 4: "isBrowserNavigationAllowed exEnv (exStore (exSettings False [''child-only''])) 0
      ''https://a.test/x'' ''https://a.test/z'' = Inr False"
    using isBrowserNavigationAllowed_decides [OF exStore_page exStore_settings,
        of "exSettings False [''child-only'']" exEnv "''https://a.test/x''" "''https://a.test/z''"]
    by (simp add: exSettings_def exStore_main)
  show ?thesis using 1 2 3 4 by simp
qed

text \<open>
  C6, as claimed: \<open>isBrowserNavigationAllowed\<close> always returns a boolean, also on a
  string that is not an absolute URL. With the policy \<open>sameorigin\<close> the function
  evaluates \<open>new URL(fromURL)\<close>, which throws a TypeError on such a string, and nothing
  in the function catches it.
\<close>

theorem isBrowserNavigationAllowed_throws_on_invalid_url:
  "isBrowserNavigationAllowed exEnv (exStore (exSettings False [''sameorigin''])) 0
      ''not a url'' ''https://a.test/x'' = Inl (TypeError ''Invalid URL: not a url'')"
  by (simp add: isBrowserNavigationAllowed_def exStore_def exSettings_def exEnv_def exOrigin_def
      startsWith_def)

text \<open>
  C6, amended. \<open>isBrowserNavigationAllowed\<close> assigns nothing (the model returns a value
  and no store). On a frame that has a page it returns a boolean when the policy contains
  \<open>deny\<close>, or does not contain \<open>sameorigin\<close>, or both strings are absolute URLs; it
  throws a TypeError when the policy contains \<open>sameorigin\<close> and no \<open>deny\<close> and one of
  the strings is not an absolute URL. Its result is the same for any two frames that
  have the same settings and agree on being the main frame of their page.
\<close>

theorem isBrowserNavigationAllowed_pure:
  assumes pg: "f_page (frames st f) = Some p"
    and s: "settingsOf st f = Inr s"
  shows "(''deny'' \<in> set (browserNavigation s) \<or>
          ''sameorigin'' \<notin> set (browserNavigation s) \<or>
          (url_origin ev fromURL \<noteq> None \<and> url_origin ev toURL \<noteq> None) \<longrightarrow>
            (\<exists>b. isBrowserNavigationAllowed ev st f fromURL toURL = Inr b)) \<and>
         (''deny'' \<notin> set (browserNavigation s) \<and>
          ''sameorigin'' \<in> set (browserNavigation s) \<and>
          (url_origin ev fromURL = None \<or> url_origin ev toURL = None) \<longrightarrow>
            (\<exists>m. isBrowserNavigationAllowed ev st f fromURL toURL = Inl (TypeError m))) \<and>
         (\<forall>st' f' p'.
            f_page (frames st' f') = Some p' \<and> settingsOf st' f' = Inr s \<and>
            (p_mainFrame (pages st' p') = f') = (p_mainFrame (pages st p) = f) \<longrightarrow>
            isBrowserNavigationAllowed ev st' f' fromURL toURL =
            isBrowserNavigationAllowed ev st f fromURL toURL)"
proof -
  have s': "s = b_settings (browsers st (c_browser (contexts st (p_context (pages st p)))))"
    using settingsOf_page [OF pg] s by simp
  have a: "''deny'' \<in> set (browserNavigation s) \<or>
          ''sameorigin'' \<notin> set (browserNavigation s) \<or>
          (url_origin ev fromURL \<noteq> None \<and> url_origin ev toURL \<noteq> None) \<longrightarrow>
            (\<exists>b. isBrowserNavigationAllowed ev st f fromURL toURL = Inr b)"
    unfolding isBrowserNavigationAllowed_def
    by (auto simp add: pg s' Let_def split: option.splits)
  have b: "''deny'' \<notin> set (browserNavigation s) \<and>
          ''sameorigin'' \<in> set (browserNavigation s) \<and>
          (url_origin ev fromURL = None \<or> url_origin ev toURL = None) \<longrightarrow>
            (\<exists>m. isBrowserNavigationAllowed ev st f fromURL toURL = Inl (TypeError m))"
    unfolding isBrowserNavigationAllowed_def
    by (auto simp add: pg s' Let_def split: option.splits)
  have c: "isBrowserNavigationAllowed ev st' f' fromURL toURL =
            isBrowserNavigationAllowed ev st f fromURL toURL"
    if h: "f_page (frames st' f') = Some p' \<and> settingsOf st' f' = Inr s \<and>
            (p_mainFrame (pages st' p') = f') = (p_mainFrame (pages st p) = f)" for st' f' p'
  proof -
    have t: "s = b_settings (browsers st' (c_browser (contexts st' (p_context (pages st' p')))))"
      using settingsOf_page [of st' f' p'] h by simp
    have m: "(p_mainFrame (pages st' p') = f') = (p_mainFrame (pages st p) = f)" using h by simp
    show ?thesis
      unfolding isBrowserNavigationAllowed_def
      using m by (auto simp add: pg h s' [symmetric] t [symmetric] Let_def split: option.splits)
  qed
  show ?thesis using a b c by blast
qed

theorem isBrowserNavigationAllowed_pure_witness:
  "(\<exists>b. isBrowserNavigationAllowed exEnv (exStore (exSettings False [''sameorigin''])) 0
      ''https://a.test/x'' ''https://b.test/y'' = Inr b) \<and>
   (\<exists>m. isBrowserNavigationAllowed exEnv (exStore (exSettings False [''sameorigin''])) 0
      ''not a url'' ''https://b.test/y'' = Inl (TypeError m)) \<and>
   isBrowserNavigationAllowed exEnv (exBlankStore (exSettings False [''sameorigin''])) 0
      ''https://a.test/x'' ''https://b.test/y'' =
   isBrowserNavigationAllowed exEnv (exStore (exSettings False [''sameorigin''])) 0
      ''https://a.test/x'' ''https://b.test/y''"
proof -
  have o: "url_origin exEnv ''https://a.test/x'' = Some ''https://a.test''"
    "url_origin exEnv ''https://b.test/y'' = Some ''https://b.test''"
    "url_origin exEnv ''not a url'' = None"
    by (simp_all add: exEnv_def exOrigin_def startsWith_def)
  have b: "f_page (frames (exBlankStore (exSettings False [''sameorigin''])) 0) = Some 0 \<and>
           settingsOf (exBlankStore (exSettings False [''sameorigin''])) 0 =
             Inr (exSettings False [''sameorigin'']) \<and>
           p_mainFrame (pages (exBlankStore (exSettings False [''sameorigin''])) 0) = 0"
    by (simp add: exBlankStore_def exStore_def settingsOf_def)
  have 1: "\<exists>b. isBrowserNavigationAllowed exEnv (exStore (exSettings False [''sameorigin''])) 0
      ''https://a.test/x'' ''https://b.test/y'' = Inr b"
    using isBrowserNavigationAllowed_pure [OF exStore_page exStore_settings,
        of "exSettings False [''sameorigin'']" exEnv "''https://a.test/x''" "''https://b.test/y''"]
    by (simp add: o)
  have 2: "\<exists>m. isBrowserNavigationAllowed exEnv (exStore (exSettings False [''sameorigin''])) 0
      ''not a url'' ''https://b.test/y'' = Inl (TypeError m)"
    using isBrowserNavigationAllowed_pure [OF exStore_page exStore_settings,
        of "exSettings False [''sameorigin'']" exEnv "''not a url''" "''https://b.test/y''"]
    by (simp add: o exSettings_def)
  have 3: "isBrowserNavigationAllowed exEnv (exBlankStore (exSettings False [''sameorigin''])) 0
      ''https://a.test/x'' ''https://b.test/y'' =
   isBrowserNavigationAllowed exEnv (exStore (exSettings False [''sameorigin''])) 0
      ''https://a.test/x'' ''https://b.test/y''"
    using isBrowserNavigationAllowed_pure [OF exStore_page exStore_settings,
        of "exSettings False [''sameorigin'']" exEnv "''https://a.test/x''" "''https://b.test/y''"]
      b exStore_main
    by blast
  show ?thesis using 1 2 3 by blast
qed

section \<open>Rejected navigations and URL resolution (C7, C8)\<close>

lemma isDetachedMainFrame_True_page:
  "isDetachedMainFrame st f = Inr True \<Longrightarrow> \<exists>p. f_page (frames st f) = Some p"
  by (auto simp add: isDetachedMainFrame_def split: if_splits option.splits)

lemma isBrowserNavigationAllowed_page:
  "isBrowserNavigationAllowed ev st f a b = Inr x \<Longrightarrow> \<exists>p. f_page (frames st f) = Some p"
  by (auto simp add: isBrowserNavigationAllowed_def split: option.splits)

lemma frameUrl_window:
  "f_window (frames st f) = Some w \<Longrightarrow> frameUrl st f = Inr (w_href (windows st w))"
  by (simp add: frameUrl_def)

lemma goto_rejects:
  assumes res: "getRelativeURL ev st f url0 = Inr u"
    and njs: "\<not> startsWith u ''javascript:''"
    and w: "f_window (frames st f) = Some w"
    and rej: "isDetachedMainFrame st f = Inr True \<or>
              (isDetachedMainFrame st f = Inr False \<and>
               isBrowserNavigationAllowed ev st f (w_href (windows st w)) u = Inr False)"
  shows "\<exists>s. settingsOf st f = Inr s \<and>
             goto n ev st f url0 opts =
               Some (Inr None,
                     if ''url-set-fallback'' \<in> set (browserNavigation s)
                     then st\<lparr>windows := (windows st)
                            (w := (windows st w)\<lparr>w_href := u, w_hostname := url_hostname ev u\<rparr>)\<rparr>
                     else st)"
proof -
  obtain p where pg: "f_page (frames st f) = Some p"
    using rej isDetachedMainFrame_True_page isBrowserNavigationAllowed_page by blast
  define s where "s = b_settings (browsers st (c_browser (contexts st (p_context (pages st p)))))"
  have s: "settingsOf st f = Inr s" using settingsOf_page [OF pg] s_def by simp
  have g: "goto n ev st f url0 opts = Some (rejectNavigation ev st f u)"
    using rej by (auto simp add: goto_def res njs frameUrl_window [OF w])
  have "rejectNavigation ev st f u =
          (Inr None,
           if ''url-set-fallback'' \<in> set (browserNavigation s)
           then st\<lparr>windows := (windows st)
                  (w := (windows st w)\<lparr>w_href := u, w_hostname := url_hostname ev u\<rparr>)\<rparr>
           else st)"
    by (simp add: rejectNavigation_def s setFrameUrl_def w)
  then show ?thesis using g s by simp
qed

text \<open>
  C7. When \<open>goto\<close> rejects the navigation of a frame that has a window at the
  eligibility check (the frame is a detached main frame, or the policy does not allow
  the transition from the frame's current location), it returns no content for every
  depth, and the store is the one it was called with, except that \<open>frame.url\<close>, the
  location of the frame's window, is the resolved target when the policy contains
  \<open>url-set-fallback\<close>: every frame record, with its children, window and task manager,
  and the trace are as before.
\<close>

theorem goto_rejected_keeps_frame_state:
  assumes res: "getRelativeURL ev st f url0 = Inr u"
    and njs: "\<not> startsWith u ''javascript:''"
    and w: "f_window (frames st f) = Some w"
    and rej: "isDetachedMainFrame st f = Inr True \<or>
              (isDetachedMainFrame st f = Inr False \<and>
               isBrowserNavigationAllowed ev st f (w_href (windows st w)) u = Inr False)"
  shows "\<exists>s. settingsOf st f = Inr s \<and>
             goto n ev st f url0 opts =
               Some (Inr None,
                     if ''url-set-fallback'' \<in> set (browserNavigation s)
                     then st\<lparr>windows := (windows st)
                            (w := (windows st w)\<lparr>w_href := u, w_hostname := url_hostname ev u\<rparr>)\<rparr>
                     else st)"
  using goto_rejects [OF assms] .

lemma exSettings_sel:
  "browserNavigation (exSettings c nav) = nav \<and>
   disableErrorCapturing (exSettings c nav) = c \<and>
   disableJavaScriptEvaluation (exSettings c nav) = False"
  by (simp add: exSettings_def)

lemma exTwoChildren_rest:
  "nextWindow (exTwoChildren s) = 3 \<and> trace (exTwoChildren s) = [] \<and>
   pages (exTwoChildren s) = pages (exStore s) \<and>
   contexts (exTwoChildren s) = contexts (exStore s) \<and>
   browsers (exTwoChildren s) = browsers (exStore s)"
  by (simp add: exTwoChildren_def newFrame_def constructFrame_def exStore_def Let_def)

lemma exTwoChildren_window0: "windows (exTwoChildren s) 0 = windows (exStore s) 0"
  by (simp add: exTwoChildren_def newFrame_def constructFrame_def exStore_def Let_def)

lemma exEnv_windowClass:
  "windowClass exEnv f = exWindow \<and> w_href exWindow = ''about:blank'' \<and>
   w_content exWindow = []"
  by (simp add: exEnv_def exWindow_def)

lemma exTwoChildren_main:
  "f_window (frames (exTwoChildren s) 0) = Some 0 \<and>
   w_href (windows (exTwoChildren s) 0) = ''https://a.test/'' \<and>
   w_closed (windows (exTwoChildren s) 0) = False \<and>
   frameUrl (exTwoChildren s) 0 = Inr ''https://a.test/'' \<and>
   frameContent (exTwoChildren s) 0 = Inr ''<html>home</html>'' \<and>
   settingsOf (exTwoChildren s) 0 = Inr s \<and>
   isDetachedMainFrame (exTwoChildren s) 0 = Inr False"
  by (simp add: frameUrl_def frameContent_def settingsOf_def isDetachedMainFrame_def
      exTwoChildren_frames exTwoChildren_rest exTwoChildren_window0 exStore_def)

lemma exTwoChildren_resolve:
  "getRelativeURL exEnv (exTwoChildren s) 0 ''about:blank'' = Inr ''about:blank'' \<and>
   getRelativeURL exEnv (exTwoChildren s) 0 ''https://b.test/y'' = Inr ''https://b.test/y'' \<and>
   getRelativeURL exEnv (exTwoChildren s) 0 ''nothing'' = Inr ''https://a.test/nothing'' \<and>
   getRelativeURL exEnv (exTwoChildren s) 0 ''broken-body'' = Inr ''https://a.test/broken-body''"
  by (simp add: getRelativeURL_def startsWith_def exTwoChildren_frames exTwoChildren_rest
      exTwoChildren_window0 exStore_def exEnv_def exResolve_def exOrigin_def)

lemma exTwoChildren_policy:
  "isBrowserNavigationAllowed exEnv (exTwoChildren (exSettings c [])) 0 a b = Inr True \<and>
   isBrowserNavigationAllowed exEnv (exTwoChildren (exSettings c [''deny''])) 0 a b = Inr False \<and>
   isBrowserNavigationAllowed exEnv
     (exTwoChildren (exSettings c [''sameorigin'', ''url-set-fallback''])) 0
     ''https://a.test/'' ''https://b.test/y'' = Inr False"
  by (simp add: isBrowserNavigationAllowed_def exTwoChildren_frames exTwoChildren_rest
      exStore_def exSettings_def exEnv_def exOrigin_def startsWith_def)

theorem goto_rejected_keeps_frame_state_witness:
  "goto 0 exEnv (exTwoChildren (exSettings False [''deny''])) 0 ''https://b.test/y'' None =
     Some (Inr None, exTwoChildren (exSettings False [''deny''])) \<and>
   (\<exists>st'. goto 0 exEnv (exTwoChildren (exSettings False [''sameorigin'', ''url-set-fallback''])) 0
            ''https://b.test/y'' None = Some (Inr None, st') \<and>
          frameUrl st' 0 = Inr ''https://b.test/y'' \<and>
          frames st' = frames (exTwoChildren (exSettings False [''sameorigin'', ''url-set-fallback''])) \<and>
          f_window (frames st' 0) = Some 0 \<and>
          f_childFrames (frames st' 0) = [1, 2] \<and>
          f_asyncTaskManager (frames st' 0) = 0 \<and>
          trace st' = [])"
proof -
  have r: "\<And>s. getRelativeURL exEnv (exTwoChildren s) 0 ''https://b.test/y'' = Inr ''https://b.test/y''"
    using exTwoChildren_resolve by blast
  have j: "\<not> startsWith ''https://b.test/y'' ''javascript:''"
    by (simp add: startsWith_def)
  have w: "\<And>s. f_window (frames (exTwoChildren s) 0) = Some 0"
    using exTwoChildren_main by blast
  have 1: "goto 0 exEnv (exTwoChildren (exSettings False [''deny''])) 0 ''https://b.test/y'' None =
     Some (Inr None, exTwoChildren (exSettings False [''deny'']))"
    using goto_rejected_keeps_frame_state [OF r j w, of "exSettings False [''deny'']" 0 None]
    by (simp add: exTwoChildren_main exTwoChildren_policy exSettings_sel)
  have 2: "\<exists>st'. goto 0 exEnv (exTwoChildren (exSettings False [''sameorigin'', ''url-set-fallback''])) 0
            ''https://b.test/y'' None = Some (Inr None, st') \<and>
          frameUrl st' 0 = Inr ''https://b.test/y'' \<and>
          frames st' = frames (exTwoChildren (exSettings False [''sameorigin'', ''url-set-fallback''])) \<and>
          f_window (frames st' 0) = Some 0 \<and>
          f_childFrames (frames st' 0) = [1, 2] \<and>
          f_asyncTaskManager (frames st' 0) = 0 \<and>
          trace st' = []"
    using goto_rejected_keeps_frame_state [OF r j w,
        of "exSettings False [''sameorigin'', ''url-set-fallback'']" 0 None]
    by (simp add: exTwoChildren_main exTwoChildren_policy exSettings_sel frameUrl_def
        exTwoChildren_frames exTwoChildren_rest exStore_def)
  show ?thesis using 1 2 by blast
qed

text \<open>
  C8. For a frame with a window and an input that is not empty and has no \<open>about:\<close> or
  \<open>javascript:\<close> prefix, when \<open>new URL(input, location)\<close> throws, \<open>getRelativeURL\<close>
  throws a DOMException named by \<open>uriMismatchError\<close> whose message has no
  relative-to clause when the hostname of the location is not empty, and has the clause
  with the location's \<open>href\<close> when it is empty.
\<close>

theorem getRelativeURL_failure_message:
  assumes w: "f_window (frames st f) = Some w"
    and ne: "url0 \<noteq> []"
    and np: "\<not> startsWith url0 ''about:''" "\<not> startsWith url0 ''javascript:''"
    and fail: "url_resolve ev url0 (w_href (windows st w)) = None"
  shows "getRelativeURL ev st f url0 =
         Inl (DOMException
           (if w_hostname (windows st w) \<noteq> []
            then ''Failed to construct URL from string '' @ quoted url0 @ ''.''
            else ''Failed to construct URL from string '' @ quoted url0 @
                 '' relative to URL '' @ quoted (w_href (windows st w)) @ ''.'')
           uriMismatchError)"
  using assms by (simp add: getRelativeURL_def)

theorem getRelativeURL_failure_message_witness:
  "getRelativeURL exEnv (exStore (exSettings False [])) 0 ''https://'' =
     Inl (DOMException (''Failed to construct URL from string '' @ [CHR 0x22] @ ''https://'' @
                        [CHR 0x22] @ ''.'') ''URIMismatchError'') \<and>
   getRelativeURL exEnv (exBlankStore (exSettings False [])) 0 ''page.html'' =
     Inl (DOMException (''Failed to construct URL from string '' @ [CHR 0x22] @ ''page.html'' @
                        [CHR 0x22] @ '' relative to URL '' @ [CHR 0x22] @ ''about:blank'' @
                        [CHR 0x22] @ ''.'') ''URIMismatchError'')"
proof -
  have w1: "f_window (frames (exStore (exSettings False [])) 0) = Some 0"
    by (simp add: exStore_def)
  have w2: "f_window (frames (exBlankStore (exSettings False [])) 0) = Some 0"
    by (simp add: exBlankStore_def exStore_def)
  have f1: "url_resolve exEnv ''https://'' (w_href (windows (exStore (exSettings False [])) 0)) = None"
    by (simp add: exEnv_def exResolve_def exOrigin_def startsWith_def)
  have f2: "url_resolve exEnv ''page.html''
              (w_href (windows (exBlankStore (exSettings False [])) 0)) = None"
    by (simp add: exEnv_def exResolve_def exOrigin_def startsWith_def exBlankStore_def exWindow_def)
  have 1: "getRelativeURL exEnv (exStore (exSettings False [])) 0 ''https://'' =
     Inl (DOMException (''Failed to construct URL from string '' @ [CHR 0x22] @ ''https://'' @
                        [CHR 0x22] @ ''.'') ''URIMismatchError'')"
    using getRelativeURL_failure_message [OF w1 _ _ _ f1]
    by (simp add: startsWith_def quoted_def uriMismatchError_def exStore_def)
  have 2: "getRelativeURL exEnv (exBlankStore (exSettings False [])) 0 ''page.html'' =
     Inl (DOMException (''Failed to construct URL from string '' @ [CHR 0x22] @ ''page.html'' @
                        [CHR 0x22] @ '' relative to URL '' @ [CHR 0x22] @ ''about:blank'' @
                        [CHR 0x22] @ ''.'') ''URIMismatchError'')"
    using getRelativeURL_failure_message [OF w2 _ _ _ f2]
    by (simp add: startsWith_def quoted_def uriMismatchError_def exBlankStore_def exWindow_def)
  show ?thesis using 1 2 by blast
qed

section \<open>Navigations that pass the eligibility check (C2, C4, C10)\<close>

lemma about_not_javascript: "startsWith u ''about:'' \<Longrightarrow> \<not> startsWith u ''javascript:''"
  by (cases u) (auto simp add: startsWith_def)

lemma getRelativeURL_window:
  assumes "getRelativeURL ev st f url0 = Inr u"
    and "\<not> startsWith u ''about:''" and "\<not> startsWith u ''javascript:''"
  shows "\<exists>w. f_window (frames st f) = Some w"
  using assms
  by (auto simp add: getRelativeURL_def Let_def split: if_splits option.splits)

lemma applyReferrer_keeps:
  "w_href (applyReferrer opts nw) = w_href nw \<and>
   w_content (applyReferrer opts nw) = w_content nw \<and>
   w_closed (applyReferrer opts nw) = w_closed nw"
  by (simp add: applyReferrer_def split: option.splits)

lemma closeLoop_teardown:
  assumes rk: "ranked rk st"
  shows "\<exists>n st1. (\<forall>m\<ge>n. closeLoop m st f 0 = Some (Inr (), st1)) \<and> closeRel st st1 \<and>
           f_window (frames st1 f) = f_window (frames st f) \<and>
           f_page (frames st1 f) = f_page (frames st f) \<and>
           f_asyncTaskManager (frames st1 f) = f_asyncTaskManager (frames st f)"
proof -
  obtain n st1 where h: "closeLoop n st f 0 = Some (Inr (), st1)"
    using closeLoop_total [OF rk] by blast
  have m: "\<forall>m\<ge>n. closeLoop m st f 0 = Some (Inr (), st1)"
    using h closeLoop_mono by blast
  have "unchangedAbove rk (rk f) st st1" using close_ranked rk h by blast
  then have "f_window (frames st1 f) = f_window (frames st f) \<and>
           f_page (frames st1 f) = f_page (frames st f) \<and>
           f_asyncTaskManager (frames st1 f) = f_asyncTaskManager (frames st f)"
    by (simp add: unchangedAbove_def)
  then show ?thesis using m closeLoop_closeRel [OF h] by blast
qed

lemma replaceWindow_open:
  assumes w: "f_window (frames st1 f) = Some w" and pg: "f_page (frames st1 f) = Some p"
  shows "\<exists>st2. replaceWindow ev st1 f opts = (Inr (), st2) \<and>
           f_window (frames st2 f) = Some (nextWindow st1) \<and>
           windows st2 (nextWindow st1) = applyReferrer opts (windowClass ev f) \<and>
           (w \<noteq> nextWindow st1 \<longrightarrow> w_closed (windows st2 w)) \<and>
           trace st2 = trace st1 \<and> timers st2 = timers st1 \<and>
           f_childFrames (frames st2 f) = [] \<and>
           f_page (frames st2 f) = Some p \<and>
           f_asyncTaskManager (frames st2 f) = Suc (f_asyncTaskManager (frames st1 f))"
  by (simp add: replaceWindow_def w pg Let_def)

lemma goto_proceeds:
  assumes rk: "ranked rk st"
    and res: "getRelativeURL ev st f url0 = Inr u"
    and njs: "\<not> startsWith u ''javascript:''"
    and det: "isDetachedMainFrame st f = Inr False"
    and w: "f_window (frames st f) = Some w"
    and allowed: "isBrowserNavigationAllowed ev st f (w_href (windows st w)) u = Inr True"
  shows "\<exists>n st2.
           (\<forall>m\<ge>n. goto m ev st f url0 opts =
              Some (if u = [] \<or> startsWith u ''about:'' then (Inr None, st2)
                    else gotoFetch ev st2 f u opts)) \<and>
           f_window (frames st2 f) = Some (nextWindow st) \<and>
           windows st2 (nextWindow st) = applyReferrer opts (windowClass ev f) \<and>
           (w \<noteq> nextWindow st \<longrightarrow> w_closed (windows st2 w)) \<and>
           trace st2 = trace st \<and> timers st2 = timers st \<and>
           f_childFrames (frames st2 f) = [] \<and>
           f_asyncTaskManager (frames st2 f) = Suc (f_asyncTaskManager (frames st f))"
proof -
  obtain p where pg: "f_page (frames st f) = Some p"
    using allowed isBrowserNavigationAllowed_page by blast
  obtain n st1 where l: "\<forall>m\<ge>n. closeLoop m st f 0 = Some (Inr (), st1)"
    and rel: "closeRel st st1"
    and w1: "f_window (frames st1 f) = Some w" and p1: "f_page (frames st1 f) = Some p"
    and a1: "f_asyncTaskManager (frames st1 f) = f_asyncTaskManager (frames st f)"
    using closeLoop_teardown [OF rk, of f] w pg by auto
  obtain st2 where r: "replaceWindow ev st1 f opts = (Inr (), st2)"
    and props: "f_window (frames st2 f) = Some (nextWindow st1)"
      "windows st2 (nextWindow st1) = applyReferrer opts (windowClass ev f)"
      "w \<noteq> nextWindow st1 \<longrightarrow> w_closed (windows st2 w)"
      "trace st2 = trace st1" "timers st2 = timers st1"
      "f_childFrames (frames st2 f) = []"
      "f_asyncTaskManager (frames st2 f) = Suc (f_asyncTaskManager (frames st1 f))"
    using replaceWindow_open [OF w1 p1, of ev opts] by blast
  have g: "\<forall>m\<ge>n. goto m ev st f url0 opts =
              Some (if u = [] \<or> startsWith u ''about:'' then (Inr None, st2)
                    else gotoFetch ev st2 f u opts)"
    using l r by (simp add: goto_def res njs det allowed frameUrl_window [OF w])
  have same: "nextWindow st1 = nextWindow st" "trace st1 = trace st" "timers st1 = timers st"
    using rel by (simp_all add: closeRel_def)
  have props': "f_window (frames st2 f) = Some (nextWindow st)"
      "windows st2 (nextWindow st) = applyReferrer opts (windowClass ev f)"
      "w \<noteq> nextWindow st \<longrightarrow> w_closed (windows st2 w)"
      "trace st2 = trace st" "timers st2 = timers st"
      "f_childFrames (frames st2 f) = []"
      "f_asyncTaskManager (frames st2 f) = Suc (f_asyncTaskManager (frames st f))"
    using props same a1 by simp_all
  show ?thesis using g props' by blast
qed

lemma gotoFetch_failure:
  assumes w: "f_window (frames st2 f) = Some w"
    and fails: "fetch ev w u opts = FetchRejects e \<or>
                (\<exists>r. fetch ev w u opts = FetchResolves r \<and> r_text r = Inl e)"
  shows "\<exists>st'. gotoFetch ev st2 f u opts =
              (Inr (case fetch ev w u opts of FetchRejects x \<Rightarrow> None | FetchResolves r \<Rightarrow> Some r),
               st') \<and>
           trace st' = trace st2 @ [StartTask w, FetchCalled w u, EndTask w, ErrorDispatched w e] \<and>
           frameUrl st' f = Inr u \<and>
           frameContent st' f = frameContent st2 f \<and>
           f_window (frames st' f) = Some w"
  using fails
  by (auto simp add: gotoFetch_def setFrameUrl_def frameUrl_def frameContent_def w Let_def
      logEvent_def dispatchError_def)

text \<open>
  C2, as claimed: for every frame \<open>goto(frame, "about:blank")\<close> replaces the window, and
  for every resolved URL with the prefix \<open>about:\<close> \<open>goto\<close> sets \<open>frame.url\<close> to the
  resolved URL. With the policy \<open>deny\<close> the navigation to \<open>about:blank\<close> is rejected at
  line 112: the main frame keeps window 0 and its URL \<open>https://a.test/\<close>. With no policy
  token and the target \<open>about:srcdoc\<close> the window is replaced and \<open>goto\<close> returns at
  line 134, before the assignment of line 137: \<open>frame.url\<close> is the location of the new
  window, \<open>about:blank\<close>, and not the resolved URL.
\<close>

theorem goto_about_blank_counterexample:
  "goto 0 exEnv (exStore (exSettings False [''deny''])) 0 ''about:blank'' None =
     Some (Inr None, exStore (exSettings False [''deny''])) \<and>
   f_window (frames (exStore (exSettings False [''deny''])) 0) = Some 0 \<and>
   frameUrl (exStore (exSettings False [''deny''])) 0 = Inr ''https://a.test/'' \<and>
   (\<exists>st'. goto 1 exEnv (exStore (exSettings False [])) 0 ''about:srcdoc'' None =
            Some (Inr None, st') \<and>
          f_window (frames st' 0) = Some 1 \<and>
          frameUrl st' 0 = Inr ''about:blank'')"
  by (simp add: goto_def getRelativeURL_def startsWith_def isDetachedMainFrame_def
      isBrowserNavigationAllowed_def rejectNavigation_def settingsOf_def replaceWindow_def
      applyReferrer_def frameUrl_def exStore_def exSettings_def exEnv_def exWindow_def Let_def)

text \<open>
  C2, amended. For a frame of a frame tree that has a window, when the resolved URL is
  empty or has the prefix \<open>about:\<close>: if the navigation passes the eligibility check,
  \<open>goto\<close> returns no content for every depth that is large enough, the frame's window
  is a newly constructed one (with the referrer of the options) and not the old one,
  which is marked closed, the trace is as before, so that \<open>fetch\<close> was not called, and
  \<open>frame.url\<close> is the location that the window constructor gave the new window
  (\<open>about:blank\<close> for a constructor that starts windows there), since \<open>goto\<close> assigns no
  URL on this path; if the eligibility check rejects, \<open>goto\<close> returns no content for
  every depth, the frame keeps its window, which is not marked closed by the call, no
  window is constructed and the trace is as before.
\<close>

theorem goto_about_replaces_window:
  assumes rk: "ranked rk st"
    and res: "getRelativeURL ev st f url0 = Inr u"
    and about: "u = [] \<or> startsWith u ''about:''"
    and w: "f_window (frames st f) = Some w"
    and fresh: "w < nextWindow st"
  shows "(isDetachedMainFrame st f = Inr False \<and>
          isBrowserNavigationAllowed ev st f (w_href (windows st w)) u = Inr True \<longrightarrow>
            (\<exists>n st'. (\<forall>m\<ge>n. goto m ev st f url0 opts = Some (Inr None, st')) \<and>
               f_window (frames st' f) = Some (nextWindow st) \<and>
               nextWindow st \<noteq> w \<and>
               windows st' (nextWindow st) = applyReferrer opts (windowClass ev f) \<and>
               w_closed (windows st' w) \<and>
               trace st' = trace st \<and>
               frameUrl st' f = Inr (w_href (windowClass ev f)))) \<and>
         (isDetachedMainFrame st f = Inr True \<or>
          (isDetachedMainFrame st f = Inr False \<and>
           isBrowserNavigationAllowed ev st f (w_href (windows st w)) u = Inr False) \<longrightarrow>
            (\<exists>st'. (\<forall>m. goto m ev st f url0 opts = Some (Inr None, st')) \<and>
               f_window (frames st' f) = Some w \<and>
               w_closed (windows st' w) = w_closed (windows st w) \<and>
               nextWindow st' = nextWindow st \<and>
               trace st' = trace st))"
proof (intro conjI impI)
  have njs: "\<not> startsWith u ''javascript:''"
    using about about_not_javascript by (auto simp add: startsWith_def)
  {
    assume el: "isDetachedMainFrame st f = Inr False \<and>
          isBrowserNavigationAllowed ev st f (w_href (windows st w)) u = Inr True"
    obtain n st' where g: "\<forall>m\<ge>n. goto m ev st f url0 opts = Some (Inr None, st')"
      and p: "f_window (frames st' f) = Some (nextWindow st)"
        "windows st' (nextWindow st) = applyReferrer opts (windowClass ev f)"
        "w \<noteq> nextWindow st \<longrightarrow> w_closed (windows st' w)"
        "trace st' = trace st"
      using goto_proceeds [OF rk res njs _ w, of opts] el about by auto
    have ne: "nextWindow st \<noteq> w" using fresh by simp
    have u: "frameUrl st' f = Inr (w_href (windowClass ev f))"
      by (simp add: frameUrl_def p applyReferrer_keeps)
    show "\<exists>n st'. (\<forall>m\<ge>n. goto m ev st f url0 opts = Some (Inr None, st')) \<and>
               f_window (frames st' f) = Some (nextWindow st) \<and>
               nextWindow st \<noteq> w \<and>
               windows st' (nextWindow st) = applyReferrer opts (windowClass ev f) \<and>
               w_closed (windows st' w) \<and>
               trace st' = trace st \<and>
               frameUrl st' f = Inr (w_href (windowClass ev f))"
      using g p ne u by blast
  }
  {
    assume rej: "isDetachedMainFrame st f = Inr True \<or>
          (isDetachedMainFrame st f = Inr False \<and>
           isBrowserNavigationAllowed ev st f (w_href (windows st w)) u = Inr False)"
    obtain s where s: "settingsOf st f = Inr s"
      using goto_rejects [OF res njs w rej] by blast
    have g: "goto m ev st f url0 opts =
               Some (Inr None,
                     if ''url-set-fallback'' \<in> set (browserNavigation s)
                     then st\<lparr>windows := (windows st)
                            (w := (windows st w)\<lparr>w_href := u, w_hostname := url_hostname ev u\<rparr>)\<rparr>
                     else st)" for m
      using goto_rejects [OF res njs w rej, of m opts] s by auto
    define st' where "st' = (if ''url-set-fallback'' \<in> set (browserNavigation s)
                     then st\<lparr>windows := (windows st)
                            (w := (windows st w)\<lparr>w_href := u, w_hostname := url_hostname ev u\<rparr>)\<rparr>
                     else st)"
    have "f_window (frames st' f) = Some w \<and>
               w_closed (windows st' w) = w_closed (windows st w) \<and>
               nextWindow st' = nextWindow st \<and> trace st' = trace st"
      using w by (simp add: st'_def)
    moreover have "\<forall>m. goto m ev st f url0 opts = Some (Inr None, st')"
      using g st'_def by simp
    ultimately show "\<exists>st'. (\<forall>m. goto m ev st f url0 opts = Some (Inr None, st')) \<and>
               f_window (frames st' f) = Some w \<and>
               w_closed (windows st' w) = w_closed (windows st w) \<and>
               nextWindow st' = nextWindow st \<and>
               trace st' = trace st"
      by blast
  }
qed

theorem goto_about_replaces_window_witness:
  "ranked (\<lambda>i. if i = 0 then 1 else 0) (exTwoChildren (exSettings False [])) \<and>
   (\<exists>n st'. (\<forall>m\<ge>n. goto m exEnv (exTwoChildren (exSettings False [])) 0 ''about:blank'' None =
                      Some (Inr None, st')) \<and>
      f_window (frames st' 0) = Some 3 \<and> windows st' 3 = exWindow \<and>
      w_closed (windows st' 0) \<and> trace st' = [] \<and>
      frameUrl st' 0 = Inr ''about:blank'') \<and>
   (\<exists>st'. (\<forall>m. goto m exEnv (exTwoChildren (exSettings False [''deny''])) 0 ''about:blank'' None =
                  Some (Inr None, st')) \<and>
      f_window (frames st' 0) = Some 0 \<and> \<not> w_closed (windows st' 0) \<and>
      nextWindow st' = 3 \<and> trace st' = [])"
proof -
  have r: "\<And>s. getRelativeURL exEnv (exTwoChildren s) 0 ''about:blank'' = Inr ''about:blank''"
    using exTwoChildren_resolve by blast
  have a: "''about:blank'' = [] \<or> startsWith ''about:blank'' ''about:''"
    by (simp add: startsWith_def)
  have w: "\<And>s. f_window (frames (exTwoChildren s) 0) = Some 0"
    using exTwoChildren_main by blast
  have fr: "\<And>s. 0 < nextWindow (exTwoChildren s)"
    by (simp add: exTwoChildren_rest)
  have 1: "\<exists>n st'. (\<forall>m\<ge>n. goto m exEnv (exTwoChildren (exSettings False [])) 0 ''about:blank'' None =
                      Some (Inr None, st')) \<and>
      f_window (frames st' 0) = Some 3 \<and> windows st' 3 = exWindow \<and>
      w_closed (windows st' 0) \<and> trace st' = [] \<and>
      frameUrl st' 0 = Inr ''about:blank''"
    using goto_about_replaces_window [OF ranked_exTwoChildren r a w fr,
        of "exSettings False []" None]
    by (simp add: exTwoChildren_rest exTwoChildren_main exTwoChildren_policy applyReferrer_def
        exEnv_windowClass)
  have 2: "\<exists>st'. (\<forall>m. goto m exEnv (exTwoChildren (exSettings False [''deny''])) 0 ''about:blank'' None =
                  Some (Inr None, st')) \<and>
      f_window (frames st' 0) = Some 0 \<and> \<not> w_closed (windows st' 0) \<and>
      nextWindow st' = 3 \<and> trace st' = []"
    using goto_about_replaces_window [OF ranked_exTwoChildren r a w fr,
        of "exSettings False [''deny'']" None]
    by (simp add: exTwoChildren_rest exTwoChildren_main exTwoChildren_policy)
  show ?thesis using 1 2 ranked_exTwoChildren by blast
qed

text \<open>
  C4. For a frame of a frame tree whose navigation reaches the fetch, when \<open>fetch\<close> is
  rejected or the body of the response cannot be read, \<open>goto\<close> returns (it does not
  throw) for every depth that is large enough: it returns the response when there is
  one and no content otherwise; the events of the navigation are the start of the task,
  the call of \<open>fetch\<close>, the end of the task and one dispatch of the error to the new
  window, so the gate of the navigation is closed.
\<close>

theorem goto_absorbs_fetch_failure:
  assumes rk: "ranked rk st"
    and res: "getRelativeURL ev st f url0 = Inr u"
    and npseudo: "\<not> startsWith u ''javascript:''" "\<not> startsWith u ''about:''" "u \<noteq> []"
    and det: "isDetachedMainFrame st f = Inr False"
    and cur: "frameUrl st f = Inr fromURL"
    and allowed: "isBrowserNavigationAllowed ev st f fromURL u = Inr True"
    and fails: "fetch ev (nextWindow st) u opts = FetchRejects e \<or>
                (\<exists>r. fetch ev (nextWindow st) u opts = FetchResolves r \<and> r_text r = Inl e)"
  shows "\<exists>n st'.
           (\<forall>m\<ge>n. goto m ev st f url0 opts =
              Some (Inr (case fetch ev (nextWindow st) u opts of
                           FetchRejects x \<Rightarrow> None
                         | FetchResolves r \<Rightarrow> Some r), st')) \<and>
           trace st' = trace st @
             [StartTask (nextWindow st), FetchCalled (nextWindow st) u,
              EndTask (nextWindow st), ErrorDispatched (nextWindow st) e] \<and>
           \<not> gateOpen (drop (length (trace st)) (trace st')) (nextWindow st)"
proof -
  obtain w where w: "f_window (frames st f) = Some w"
    using getRelativeURL_window [OF res npseudo(2) npseudo(1)] by blast
  have al: "isBrowserNavigationAllowed ev st f (w_href (windows st w)) u = Inr True"
    using allowed cur frameUrl_window [OF w] by simp
  obtain n st2 where g: "\<forall>m\<ge>n. goto m ev st f url0 opts = Some (gotoFetch ev st2 f u opts)"
    and w2: "f_window (frames st2 f) = Some (nextWindow st)"
    and t2: "trace st2 = trace st"
    using goto_proceeds [OF rk res npseudo(1) det w al, of opts] npseudo by auto
  obtain st' where f: "gotoFetch ev st2 f u opts =
              (Inr (case fetch ev (nextWindow st) u opts of
                      FetchRejects x \<Rightarrow> None | FetchResolves r \<Rightarrow> Some r), st')"
    and t: "trace st' = trace st2 @
             [StartTask (nextWindow st), FetchCalled (nextWindow st) u,
              EndTask (nextWindow st), ErrorDispatched (nextWindow st) e]"
    using gotoFetch_failure [OF w2 fails] by blast
  have t': "trace st' = trace st @
             [StartTask (nextWindow st), FetchCalled (nextWindow st) u,
              EndTask (nextWindow st), ErrorDispatched (nextWindow st) e]"
    using t t2 by simp
  have gate: "\<not> gateOpen (drop (length (trace st)) (trace st')) (nextWindow st)"
    by (simp add: t' gateOpen_def started_def ended_def)
  have g': "\<forall>m\<ge>n. goto m ev st f url0 opts =
              Some (Inr (case fetch ev (nextWindow st) u opts of
                           FetchRejects x \<Rightarrow> None
                         | FetchResolves r \<Rightarrow> Some r), st')"
    using g f by simp
  show ?thesis using g' t' gate by blast
qed

theorem goto_absorbs_fetch_failure_witness:
  "ranked (\<lambda>i. if i = 0 then 1 else 0) (exTwoChildren (exSettings False [])) \<and>
   (\<exists>n st'. (\<forall>m\<ge>n. goto m exEnv (exTwoChildren (exSettings False [])) 0 ''nothing'' None =
                      Some (Inr None, st')) \<and>
      trace st' = [StartTask 3, FetchCalled 3 ''https://a.test/nothing'', EndTask 3,
                   ErrorDispatched 3 (Thrown ''network error'')]) \<and>
   (\<exists>n st'. (\<forall>m\<ge>n. goto m exEnv (exTwoChildren (exSettings False [])) 0 ''broken-body'' None =
                      Some (Inr (Some \<lparr>r_id = 2, r_text = Inl (Thrown ''body stream failed'')\<rparr>),
                            st')) \<and>
      trace st' = [StartTask 3, FetchCalled 3 ''https://a.test/broken-body'', EndTask 3,
                   ErrorDispatched 3 (Thrown ''body stream failed'')])"
proof -
  have r1: "getRelativeURL exEnv (exTwoChildren (exSettings False [])) 0 ''nothing''
             = Inr ''https://a.test/nothing''"
    and r2: "getRelativeURL exEnv (exTwoChildren (exSettings False [])) 0 ''broken-body''
             = Inr ''https://a.test/broken-body''"
    using exTwoChildren_resolve by blast+
  have d: "isDetachedMainFrame (exTwoChildren (exSettings False [])) 0 = Inr False"
    using exTwoChildren_main by blast
  have c: "frameUrl (exTwoChildren (exSettings False [])) 0 = Inr ''https://a.test/''"
    using exTwoChildren_main by blast
  have al: "\<And>b. isBrowserNavigationAllowed exEnv (exTwoChildren (exSettings False [])) 0
              ''https://a.test/'' b = Inr True"
    using exTwoChildren_policy by blast
  have f1: "fetch exEnv (nextWindow (exTwoChildren (exSettings False [])))
              ''https://a.test/nothing'' None = FetchRejects (Thrown ''network error'')"
    by (simp add: exEnv_def exFetch_def)
  have f2: "fetch exEnv (nextWindow (exTwoChildren (exSettings False [])))
              ''https://a.test/broken-body'' None =
            FetchResolves \<lparr>r_id = 2, r_text = Inl (Thrown ''body stream failed'')\<rparr>"
    by (simp add: exEnv_def exFetch_def)
  have 1: "\<exists>n st'. (\<forall>m\<ge>n. goto m exEnv (exTwoChildren (exSettings False [])) 0 ''nothing'' None =
                      Some (Inr None, st')) \<and>
      trace st' = [StartTask 3, FetchCalled 3 ''https://a.test/nothing'', EndTask 3,
                   ErrorDispatched 3 (Thrown ''network error'')]"
    using goto_absorbs_fetch_failure [OF ranked_exTwoChildren r1 _ _ _ d c al,
        of None "Thrown ''network error''"] f1
    by (simp add: startsWith_def exTwoChildren_rest) blast
  have 2: "\<exists>n st'. (\<forall>m\<ge>n. goto m exEnv (exTwoChildren (exSettings False [])) 0 ''broken-body'' None =
                      Some (Inr (Some \<lparr>r_id = 2, r_text = Inl (Thrown ''body stream failed'')\<rparr>),
                            st')) \<and>
      trace st' = [StartTask 3, FetchCalled 3 ''https://a.test/broken-body'', EndTask 3,
                   ErrorDispatched 3 (Thrown ''body stream failed'')]"
    using goto_absorbs_fetch_failure [OF ranked_exTwoChildren r2 _ _ _ d c al,
        of None "Thrown ''body stream failed''"] f2
    by (simp add: startsWith_def exTwoChildren_rest) blast
  show ?thesis using 1 2 ranked_exTwoChildren by blast
qed



section \<open>The javascript: target (C3)\<close>

lemma runTimeout_ends_task:
  assumes "frameUrl st (t_frame t) = Inr furl"
    and "settingsOf st (t_frame t) = Inr s"
    and "f_window (frames st (t_frame t)) = Some w"
    and "\<not> disableErrorCapturing s \<or>
         evalJS ev w (''//# sourceURL='' @ furl @ [CHR 0x0A] @
                      replace (t_url t) ''javascript:'' []) = None"
  shows "\<exists>st'. runTimeout ev st t = (Inr (), st') \<and>
           ended (drop (length (trace st)) (trace st')) (t_readyStateManager t) = 1"
  using assms
  by (auto simp add: runTimeout_def Let_def evalInWindow_def captureError_def dispatchError_def
      logEvent_def ended_def split: option.splits)

lemma runTimeout_skips_endTask:
  assumes "frameUrl st (t_frame t) = Inr furl"
    and "settingsOf st (t_frame t) = Inr s"
    and "f_window (frames st (t_frame t)) = Some w"
    and "disableErrorCapturing s"
    and "evalJS ev w (''//# sourceURL='' @ furl @ [CHR 0x0A] @
                      replace (t_url t) ''javascript:'' []) = Some e"
  shows "\<exists>st'. runTimeout ev st t = (Inl e, st') \<and>
           ended (drop (length (trace st)) (trace st')) (t_readyStateManager t) = 0"
  using assms
  by (simp add: runTimeout_def Let_def evalInWindow_def logEvent_def ended_def)

text \<open>
  C3. The claim: the gate that a navigation opens is closed, also on the \<open>javascript:\<close>
  path and also when error capturing is disabled and the code throws. With
  \<open>disableErrorCapturing\<close> set, \<open>goto(frame, "javascript:throw 1")\<close> starts a task on
  the window and schedules the callback; the callback evaluates the code outside
  \<open>captureError\<close>, the error leaves the callback at line 94, and line 99 is not
  reached: no task is ended and the gate stays open.
\<close>

theorem goto_javascript_leaves_gate_open:
  "\<exists>st1 st2 code.
     goto 0 exEnv (exStore (exSettings True [])) 0 ''javascript:throw 1'' None =
       Some (Inr None, st1) \<and>
     trace st1 = [StartTask 0] \<and>
     fireTimers exEnv st1 = ([Thrown ''1''], st2) \<and>
     trace st2 = [StartTask 0, Evaluated 0 code] \<and>
     timers st2 = [] \<and>
     ended (trace st2) 0 = 0 \<and>
     gateOpen (trace st2) 0"
  by (simp add: goto_def getRelativeURL_def startsWith_def gotoJavascript_def settingsOf_def
      fireTimers_def runTimeout_def frameUrl_def evalInWindow_def logEvent_def gateOpen_def
      started_def ended_def exStore_def exSettings_def exEnv_def exEval_def Let_def)

end
